theory Spec2Isabelle
  imports Main "HOL-Library.Word"
begin

unbundle bit_operations_syntax

section \<open>The JNI stub compiler (compiler\_llvm/jni\_compiler.cc)\<close>

text \<open>
  \<^verbatim>\<open>JniCompiler::Compile\<close> emits, through an IR builder, the body of one function: the
  stub that managed code calls for a \<^verbatim>\<open>native\<close> method. The function has a single basic
  block (\<^verbatim>\<open>B0\<close>) and the builder appends every instruction at its end, so the body is
  a list of instructions and the value an instruction produces is named by its position
  in that list.
\<close>

subsection \<open>Types and values of the IR\<close>

text \<open>
  The types the compiler asks the builder for. \<open>FieldAddrTy t idx\<close> stands for the type
  of the address that a GEP with the constant indices \<open>idx\<close> yields from a pointer to
  \<open>t\<close> (\<^verbatim>\<open>method_field_addr->getType()\<close>).
\<close>

datatype llvm_type =
    JVoidTy
  | JPrimTy char
  | JObjectTy
  | Int32Ty
  | ShadowFrameTy nat
  | PointerTo llvm_type
  | FunctionTy llvm_type "llvm_type list"
  | FieldAddrTy llvm_type "nat list"

text \<open>
  Modelled from the spec: \<^verbatim>\<open>irb_.getJType(shorty_char, kAccurate)\<close>, declared in
  ir\_builder.h, which lies outside jni\_compiler.cc. The spec's signature resolver
  tags each character of the shorty as reference or as a specific primitive kind; the
  compiler itself tests \<^verbatim>\<open>'L'\<close> for a reference and \<^verbatim>\<open>'V'\<close> for void.
\<close>

definition getJType :: "char \<Rightarrow> llvm_type" where
  "getJType c =
     (if c = CHR ''L'' then JObjectTy
      else if c = CHR ''V'' then JVoidTy
      else JPrimTy c)"

datatype runtime_support =
    GetCurrentThread
  | PushShadowFrame
  | PopShadowFrame
  | DecodeJObjectInThread

text \<open>
  An operand is a parameter of the function (\<open>Argument 0\<close> is the method pointer), a
  constant, or the result of the instruction at a position of the body.
\<close>

datatype val =
    Argument nat
  | Reg nat
  | Int32 int
  | PtrEquivInt int
  | JNull
  | ConstantAggregateZero llvm_type

datatype callee = RuntimeFn runtime_support | Indirect val

datatype instr =
    Call callee "val list"
  | Alloca llvm_type
  | Store val val
  | Load val
  | GEP val "val list"
  | PtrDisp val val llvm_type
  | BitCast val llvm_type
  | ICmpEQ val val
  | Select val val val
  | Ret val
  | RetVoid

subsection \<open>The IR builder\<close>

text \<open>
  The builder's state is the body built so far. Each \<^verbatim>\<open>Create...\<close> call appends one
  instruction and returns the value it defines. \<^verbatim>\<open>CreatePtrDisp\<close> (ir\_builder.h) is kept
  as one instruction: the address \<open>base + offset\<close> cast to the given pointer type.
\<close>

type_synonym irbuilder = "instr list"

definition Insert :: "instr \<Rightarrow> irbuilder \<Rightarrow> val \<times> irbuilder" where
  "Insert i b = (Reg (length b), b @ [i])"

definition CreateCall :: "callee \<Rightarrow> val list \<Rightarrow> irbuilder \<Rightarrow> val \<times> irbuilder" where
  "CreateCall f args b = Insert (Call f args) b"

definition CreateAlloca :: "llvm_type \<Rightarrow> irbuilder \<Rightarrow> val \<times> irbuilder" where
  "CreateAlloca ty b = Insert (Alloca ty) b"

definition CreateStore :: "val \<Rightarrow> val \<Rightarrow> irbuilder \<Rightarrow> irbuilder" where
  "CreateStore v addr b = snd (Insert (Store v addr) b)"

definition CreateLoad :: "val \<Rightarrow> irbuilder \<Rightarrow> val \<times> irbuilder" where
  "CreateLoad addr b = Insert (Load addr) b"

definition CreateGEP :: "val \<Rightarrow> val list \<Rightarrow> irbuilder \<Rightarrow> val \<times> irbuilder" where
  "CreateGEP base idx b = Insert (GEP base idx) b"

definition CreateConstGEP2_32 :: "val \<Rightarrow> int \<Rightarrow> int \<Rightarrow> irbuilder \<Rightarrow> val \<times> irbuilder" where
  "CreateConstGEP2_32 base i j b = Insert (GEP base [Int32 i, Int32 j]) b"

definition CreatePtrDisp :: "val \<Rightarrow> val \<Rightarrow> llvm_type \<Rightarrow> irbuilder \<Rightarrow> val \<times> irbuilder" where
  "CreatePtrDisp base offs ty b = Insert (PtrDisp base offs ty) b"

definition CreateBitCast :: "val \<Rightarrow> llvm_type \<Rightarrow> irbuilder \<Rightarrow> val \<times> irbuilder" where
  "CreateBitCast v ty b = Insert (BitCast v ty) b"

definition CreateICmpEQ :: "val \<Rightarrow> val \<Rightarrow> irbuilder \<Rightarrow> val \<times> irbuilder" where
  "CreateICmpEQ x y b = Insert (ICmpEQ x y) b"

definition CreateSelect :: "val \<Rightarrow> val \<Rightarrow> val \<Rightarrow> irbuilder \<Rightarrow> val \<times> irbuilder" where
  "CreateSelect c x y b = Insert (Select c x y) b"

definition CreateRet :: "val \<Rightarrow> irbuilder \<Rightarrow> irbuilder" where
  "CreateRet v b = snd (Insert (Ret v) b)"

definition CreateRetVoid :: "irbuilder \<Rightarrow> irbuilder" where
  "CreateRetVoid b = snd (Insert RetVoid b)"

text \<open>\<^verbatim>\<open>JniCompiler::LoadFromObjectOffset\<close> and \<^verbatim>\<open>JniCompiler::StoreToObjectOffset\<close>.\<close>

definition LoadFromObjectOffset ::
  "val \<Rightarrow> int \<Rightarrow> llvm_type \<Rightarrow> irbuilder \<Rightarrow> val \<times> irbuilder" where
  "LoadFromObjectOffset object_addr offset ty b =
     (let llvm_offset = PtrEquivInt offset;
          (value_addr, b1) = CreatePtrDisp object_addr llvm_offset (PointerTo ty) b
      in CreateLoad value_addr b1)"

definition StoreToObjectOffset ::
  "val \<Rightarrow> int \<Rightarrow> llvm_type \<Rightarrow> val \<Rightarrow> irbuilder \<Rightarrow> irbuilder" where
  "StoreToObjectOffset object_addr offset ty v b =
     (let llvm_offset = PtrEquivInt offset;
          (value_addr, b1) = CreatePtrDisp object_addr llvm_offset (PointerTo ty) b
      in CreateStore v value_addr b1)"

subsection \<open>The compiler's inputs\<close>

text \<open>
  The field offsets and thread states come from headers outside jni\_compiler.cc
  (thread.h, object.h, jni\_internal.h); they are parameters.
\<close>

record runtime_layout =
  TopOfManagedStackOffset :: int
  JniEnvOffset :: int
  StateOffset :: int
  kNative :: int
  kRunnable :: int
  NativeMethodOffset :: int
  DeclaringClassOffset :: int
  LocalRefCookieOffset :: int
  SegmentStateOffset :: int

text \<open>
  Modelled from the spec: the flag bit that marks a method \<^verbatim>\<open>native\<close> (its declaration
  lies outside jni\_compiler.cc); the value is the one of the dex format.
\<close>

definition kAccNative :: "32 word" where
  "kAccNative = 0x0100"

record art_method =
  IsStatic :: bool
  LLVMLongName :: string

record compilation_unit =
  GetInstructionSet :: nat
  GetElfIndex :: nat

record oat_compilation_unit =
  oat_access_flags :: "32 word"
  oat_method_idx :: nat
  GetResolvedMethod :: "nat \<Rightarrow> art_method option"
  GetMethodShorty :: "nat \<Rightarrow> string"

record jni_compiler =
  cunit :: compilation_unit
  access_flags :: "32 word"
  method_idx :: nat
  dex_shorty :: "nat \<Rightarrow> string"
  the_method :: art_method

datatype abort =
    CHECK_method_resolved
  | CHECK_method_native
  | CHECK_shorty_size
  | DCHECK_arg_iter
  | ABORT_verifier

text \<open>The constructor: both \<^verbatim>\<open>CHECK\<close>s abort.\<close>

definition JniCompiler :: "compilation_unit \<Rightarrow> oat_compilation_unit \<Rightarrow> abort + jni_compiler" where
  "JniCompiler cu oat =
     (case GetResolvedMethod oat (oat_method_idx oat) of
        None \<Rightarrow> Inl CHECK_method_resolved
      | Some m \<Rightarrow>
          if oat_access_flags oat AND kAccNative \<noteq> 0
          then Inr \<lparr> cunit = cu, access_flags = oat_access_flags oat,
                     method_idx = oat_method_idx oat, dex_shorty = GetMethodShorty oat,
                     the_method = m \<rparr>
          else Inl CHECK_method_native)"

subsection \<open>Function types\<close>

text \<open>\<^verbatim>\<open>JniCompiler::GetFunctionType\<close>.\<close>

definition GetFunctionType :: "jni_compiler \<Rightarrow> nat \<Rightarrow> bool \<Rightarrow> bool \<Rightarrow> abort + llvm_type" where
  "GetFunctionType jc idx is_static is_target_function =
     (let shorty = dex_shorty jc idx in
      if length shorty \<ge> 1 then
        let ret_type = getJType (shorty ! 0);
            args_type = [JObjectTy];
            args_type = (if \<not> is_static \<or> is_target_function
                         then args_type @ [getJType CHR ''L''] else args_type);
            args_type = args_type @ map getJType (drop 1 shorty)
        in Inr (FunctionTy ret_type args_type)
      else Inl CHECK_shorty_size)"

record llvm_function =
  fn_name :: string
  fn_type :: llvm_type
  fn_body :: "instr list"

text \<open>\<^verbatim>\<open>JniCompiler::CreateFunction\<close>: the new function and its empty entry block.\<close>

definition CreateFunction :: "jni_compiler \<Rightarrow> abort + llvm_function" where
  "CreateFunction jc =
     (let func_name = LLVMLongName (the_method jc) in
      case GetFunctionType jc (method_idx jc) (IsStatic (the_method jc)) False of
        Inl e \<Rightarrow> Inl e
      | Inr func_type \<Rightarrow> Inr \<lparr> fn_name = func_name, fn_type = func_type, fn_body = [] \<rparr>)"

fun fn_params :: "llvm_type \<Rightarrow> llvm_type list" where
  "fn_params (FunctionTy r ps) = ps"
| "fn_params _ = []"

subsection \<open>The verifier\<close>

text \<open>
  \<^verbatim>\<open>llvm::verifyFunction\<close> (llvm/Analysis/Verifier.h) returns \<^verbatim>\<open>true\<close> when the function
  is broken. What it does then is chosen by its second argument: with
  \<^verbatim>\<open>AbortProcessAction\<close> it aborts the process, with \<^verbatim>\<open>PrintMessageAction\<close> it prints a
  message and returns, with \<^verbatim>\<open>ReturnStatusAction\<close> it only returns. The judgement itself
  is the parameter \<open>broken\<close>.
\<close>

datatype verifier_failure_action = AbortProcessAction | PrintMessageAction | ReturnStatusAction

datatype verifier_outcome = VerifierAborts | VerifierReturns bool

definition verifyFunction ::
  "(llvm_function \<Rightarrow> bool) \<Rightarrow> llvm_function \<Rightarrow> verifier_failure_action \<Rightarrow> verifier_outcome" where
  "verifyFunction broken f action =
     (if broken f
      then (case action of AbortProcessAction \<Rightarrow> VerifierAborts | _ \<Rightarrow> VerifierReturns True)
      else VerifierReturns False)"

subsection \<open>Compile\<close>

text \<open>The first loop of \<^verbatim>\<open>Compile\<close>: count the \<^verbatim>\<open>Object*\<close> arguments.\<close>

fun count_object_args :: "llvm_type list \<Rightarrow> nat \<Rightarrow> nat" where
  "count_object_args [] sirt_size = sirt_size"
| "count_object_args (ty # tys) sirt_size =
     count_object_args tys (if ty = JObjectTy then sirt_size + 1 else sirt_size)"

text \<open>
  The second loop: store the arguments to the SIRT and push them back to \<open>args\<close>. In the
  source the operands of \<^verbatim>\<open>CreateSelect\<close> are evaluated before the call, so the bit cast
  is emitted before the select.
\<close>

fun store_arguments ::
  "val \<Rightarrow> (val \<times> llvm_type) list \<Rightarrow> nat \<Rightarrow> val list \<Rightarrow> irbuilder \<Rightarrow> nat \<times> val list \<times> irbuilder" where
  "store_arguments shadow_frame [] sirt_member_index args b = (sirt_member_index, args, b)"
| "store_arguments shadow_frame ((arg_iter, ty) # rest) sirt_member_index args b =
     (if ty = JObjectTy then
        let (sirt_field_addr, b1) =
              CreateGEP shadow_frame [Int32 0, Int32 1, Int32 (int sirt_member_index)] b;
            b2 = CreateStore arg_iter sirt_field_addr b1;
            (equal_null, b3) = CreateICmpEQ arg_iter JNull b2;
            (cast, b4) = CreateBitCast sirt_field_addr JObjectTy b3;
            (arg, b5) = CreateSelect equal_null JNull cast b4
        in store_arguments shadow_frame rest (sirt_member_index + 1) (args @ [arg]) b5
      else store_arguments shadow_frame rest sirt_member_index (args @ [arg_iter]) b)"

record compiled_method =
  cm_instruction_set :: nat
  cm_elf_idx :: nat

text \<open>
  \<^verbatim>\<open>JniCompiler::Compile\<close>. The result is the \<^verbatim>\<open>CompiledMethod\<close> it returns, together
  with the function it has left in the module. The status that the verifier returns is
  not looked at; only a verifier that aborts the process would keep \<^verbatim>\<open>Compile\<close> from
  returning. \<open>sirt_size\<close> is a \<^verbatim>\<open>uint32_t\<close> in the
  source; a shorty's length is a \<^verbatim>\<open>uint32_t\<close> too, so the count, at most the number of
  parameters plus one, cannot wrap, and it is a \<open>nat\<close> here. The names given to the
  parameters (\<^verbatim>\<open>method\<close>, \<^verbatim>\<open>a0\<close>, \<^verbatim>\<open>a1\<close>, ...) are not recorded.
\<close>

definition Compile ::
  "runtime_layout \<Rightarrow> (llvm_function \<Rightarrow> bool) \<Rightarrow> jni_compiler \<Rightarrow>
     abort + (compiled_method \<times> llvm_function)" where
  "Compile L broken jc =
     (let is_static = IsStatic (the_method jc) in
      case CreateFunction jc of Inl e \<Rightarrow> Inl e | Inr func \<Rightarrow>
      (case fn_params (fn_type func) of [] \<Rightarrow> Inl DCHECK_arg_iter | method_ty # arg_tys \<Rightarrow>
       let method_object_addr = Argument 0;
           actuals = zip (map Argument [1 ..< Suc (length arg_tys)]) arg_tys;
           sirt_size = count_object_args arg_tys (if is_static then 1 else 0);
           b = fn_body func;
           (thread_object_addr, b) = CreateCall (RuntimeFn GetCurrentThread) [] b;
           shadow_frame_type = ShadowFrameTy sirt_size;
           (shadow_frame, b) = CreateAlloca shadow_frame_type b;
           zero_initializer = ConstantAggregateZero shadow_frame_type;
           b = CreateStore zero_initializer shadow_frame b;
           zero = Int32 0;
           (method_field_addr, b) = CreateGEP shadow_frame [zero, zero, Int32 2] b;
           b = CreateStore method_object_addr method_field_addr b;
           (size_field_addr, b) = CreateGEP shadow_frame [zero, zero, Int32 0] b;
           sirt_size_value = Int32 (int sirt_size);
           b = CreateStore sirt_size_value size_field_addr b;
           (shadow_frame_upcast, b) = CreateConstGEP2_32 shadow_frame 0 0 b;
           (pushed, b) = CreateCall (RuntimeFn PushShadowFrame) [shadow_frame_upcast] b;
           b = StoreToObjectOffset thread_object_addr (TopOfManagedStackOffset L)
                 (FieldAddrTy shadow_frame_type [0, 0, 2]) method_field_addr b;
           (jni_env_object_addr, b) =
              LoadFromObjectOffset thread_object_addr (JniEnvOffset L) JObjectTy b;
           b = StoreToObjectOffset thread_object_addr (StateOffset L) Int32Ty
                 (Int32 (kNative L)) b
       in (case GetFunctionType jc (method_idx jc) is_static True of Inl e \<Rightarrow> Inl e
          | Inr target_type \<Rightarrow>
       let (code_addr, b) =
              LoadFromObjectOffset method_object_addr (NativeMethodOffset L)
                (PointerTo target_type) b;
           args = [jni_env_object_addr];
           sirt_member_index = 0;
           (sirt_member_index, args, b) =
              (if is_static then
                 let (class_object_addr, b) =
                        LoadFromObjectOffset method_object_addr (DeclaringClassOffset L)
                          JObjectTy b;
                     (sirt_field_addr, b) =
                        CreateGEP shadow_frame
                          [zero, Int32 1, Int32 (int sirt_member_index)] b;
                     b = CreateStore class_object_addr sirt_field_addr b;
                     (cast, b) = CreateBitCast sirt_field_addr JObjectTy b
                 in (sirt_member_index + 1, args @ [cast], b)
               else (sirt_member_index, args, b));
           (sirt_member_index, args, b) =
              store_arguments shadow_frame actuals sirt_member_index args b;
           (saved_local_ref_cookie, b) =
              LoadFromObjectOffset jni_env_object_addr (LocalRefCookieOffset L) Int32Ty b;
           (segment_state, b) =
              LoadFromObjectOffset jni_env_object_addr (SegmentStateOffset L) Int32Ty b;
           b = StoreToObjectOffset jni_env_object_addr (LocalRefCookieOffset L) Int32Ty
                 segment_state b;
           (retval, b) = CreateCall (Indirect code_addr) args b;
           b = StoreToObjectOffset thread_object_addr (StateOffset L) Int32Ty
                 (Int32 (kRunnable L)) b;
           shorty = dex_shorty jc (method_idx jc);
           ret_shorty = shorty ! 0
       in if \<not> length shorty \<ge> 1 then Inl CHECK_shorty_size else
       let (retval, b) =
              (if ret_shorty = CHR ''L''
               then CreateCall (RuntimeFn DecodeJObjectInThread) [thread_object_addr, retval] b
               else (retval, b));
           (local_ref_cookie, b) =
              LoadFromObjectOffset jni_env_object_addr (LocalRefCookieOffset L) Int32Ty b;
           b = StoreToObjectOffset jni_env_object_addr (SegmentStateOffset L) Int32Ty
                 local_ref_cookie b;
           b = StoreToObjectOffset jni_env_object_addr (LocalRefCookieOffset L) Int32Ty
                 saved_local_ref_cookie b;
           (popped, b) = CreateCall (RuntimeFn PopShadowFrame) [] b;
           b = (if ret_shorty \<noteq> CHR ''V'' then CreateRet retval b else CreateRetVoid b);
           func = func \<lparr> fn_body := b \<rparr>
       in (case verifyFunction broken func PrintMessageAction of
             VerifierAborts \<Rightarrow> Inl ABORT_verifier
           | VerifierReturns verdict \<Rightarrow>
               Inr (\<lparr> cm_instruction_set = GetInstructionSet (cunit jc),
                       cm_elf_idx = GetElfIndex (cunit jc) \<rparr>, func)))))"

section \<open>The emitted body in closed form\<close>

text \<open>
  The definitions of this section are not part of the compiler: they spell out the list
  of instructions that \<^verbatim>\<open>Compile\<close> builds, stage by stage, and lemma \<open>Compile_eq\<close> below
  proves that \<^verbatim>\<open>Compile\<close> returns exactly this list.

  \<open>arg_instrs\<close> and \<open>arg_values\<close> are the instructions and the argument values that the
  second loop adds, when it starts with \<open>n\<close> instructions in the body and slot \<open>k\<close> as the
  next unused one; \<open>count_refs\<close> is the number of slots it uses.
\<close>

fun arg_instrs :: "val \<Rightarrow> (val \<times> llvm_type) list \<Rightarrow> nat \<Rightarrow> nat \<Rightarrow> instr list" where
  "arg_instrs sf [] k n = []"
| "arg_instrs sf ((a, ty) # rest) k n =
     (if ty = JObjectTy then
        [GEP sf [Int32 0, Int32 1, Int32 (int k)], Store a (Reg n), ICmpEQ a JNull,
         BitCast (Reg n) JObjectTy, Select (Reg (n + 2)) JNull (Reg (n + 3))]
        @ arg_instrs sf rest (k + 1) (n + 5)
      else arg_instrs sf rest k n)"

fun arg_values :: "(val \<times> llvm_type) list \<Rightarrow> nat \<Rightarrow> val list" where
  "arg_values [] n = []"
| "arg_values ((a, ty) # rest) n =
     (if ty = JObjectTy then Reg (n + 4) # arg_values rest (n + 5) else a # arg_values rest n)"

fun count_refs :: "(val \<times> llvm_type) list \<Rightarrow> nat" where
  "count_refs [] = 0"
| "count_refs ((a, ty) # rest) = (if ty = JObjectTy then Suc (count_refs rest) else count_refs rest)"

text \<open>
  The types and the values of the parameters that follow the method pointer: the
  receiver, for an instance method, then one parameter for each argument of the shorty.
\<close>

definition bridge_arg_types :: "bool \<Rightarrow> string \<Rightarrow> llvm_type list" where
  "bridge_arg_types is_static cs =
     (if is_static then [] else [JObjectTy]) @ map getJType cs"

definition bridge_args :: "bool \<Rightarrow> string \<Rightarrow> (val \<times> llvm_type) list" where
  "bridge_args is_static cs =
     (let tys = bridge_arg_types is_static cs
      in zip (map Argument [1 ..< Suc (length tys)]) tys)"

definition target_type :: "char \<Rightarrow> string \<Rightarrow> llvm_type" where
  "target_type c cs = FunctionTy (getJType c) ([JObjectTy, JObjectTy] @ map getJType cs)"

definition sirt_size_of :: "bool \<Rightarrow> string \<Rightarrow> nat" where
  "sirt_size_of is_static cs =
     count_object_args (bridge_arg_types is_static cs) (if is_static then 1 else 0)"

text \<open>
  The three fixed stages: everything up to the load of the native entry point, the five
  instructions for the class of a static method, and everything from the save of the
  cookie to the return.
\<close>

definition prologue :: "runtime_layout \<Rightarrow> bool \<Rightarrow> char \<Rightarrow> string \<Rightarrow> instr list" where
  "prologue L is_static c cs =
     [Call (RuntimeFn GetCurrentThread) [],
      Alloca (ShadowFrameTy (sirt_size_of is_static cs)),
      Store (ConstantAggregateZero (ShadowFrameTy (sirt_size_of is_static cs))) (Reg 1),
      GEP (Reg 1) [Int32 0, Int32 0, Int32 2],
      Store (Argument 0) (Reg 3),
      GEP (Reg 1) [Int32 0, Int32 0, Int32 0],
      Store (Int32 (int (sirt_size_of is_static cs))) (Reg 5),
      GEP (Reg 1) [Int32 0, Int32 0],
      Call (RuntimeFn PushShadowFrame) [Reg 7],
      PtrDisp (Reg 0) (PtrEquivInt (TopOfManagedStackOffset L))
        (PointerTo (FieldAddrTy (ShadowFrameTy (sirt_size_of is_static cs)) [0, 0, 2])),
      Store (Reg 3) (Reg 9),
      PtrDisp (Reg 0) (PtrEquivInt (JniEnvOffset L)) (PointerTo JObjectTy),
      Load (Reg 11),
      PtrDisp (Reg 0) (PtrEquivInt (StateOffset L)) (PointerTo Int32Ty),
      Store (Int32 (kNative L)) (Reg 13),
      PtrDisp (Argument 0) (PtrEquivInt (NativeMethodOffset L))
        (PointerTo (PointerTo (target_type c cs))),
      Load (Reg 15)]"

definition class_instrs :: "runtime_layout \<Rightarrow> instr list" where
  "class_instrs L =
     [PtrDisp (Argument 0) (PtrEquivInt (DeclaringClassOffset L)) (PointerTo JObjectTy),
      Load (Reg 17),
      GEP (Reg 1) [Int32 0, Int32 1, Int32 0],
      Store (Reg 18) (Reg 19),
      BitCast (Reg 19) JObjectTy]"

definition epilogue :: "runtime_layout \<Rightarrow> char \<Rightarrow> val list \<Rightarrow> nat \<Rightarrow> instr list" where
  "epilogue L c args n =
     [PtrDisp (Reg 12) (PtrEquivInt (LocalRefCookieOffset L)) (PointerTo Int32Ty),
      Load (Reg n),
      PtrDisp (Reg 12) (PtrEquivInt (SegmentStateOffset L)) (PointerTo Int32Ty),
      Load (Reg (n + 2)),
      PtrDisp (Reg 12) (PtrEquivInt (LocalRefCookieOffset L)) (PointerTo Int32Ty),
      Store (Reg (n + 3)) (Reg (n + 4)),
      Call (Indirect (Reg 16)) args,
      PtrDisp (Reg 0) (PtrEquivInt (StateOffset L)) (PointerTo Int32Ty),
      Store (Int32 (kRunnable L)) (Reg (n + 7))]
     @ (if c = CHR ''L'' then [Call (RuntimeFn DecodeJObjectInThread) [Reg 0, Reg (n + 6)]] else [])
     @ (let d = (if c = CHR ''L'' then 1 else 0) in
        [PtrDisp (Reg 12) (PtrEquivInt (LocalRefCookieOffset L)) (PointerTo Int32Ty),
         Load (Reg (n + 9 + d)),
         PtrDisp (Reg 12) (PtrEquivInt (SegmentStateOffset L)) (PointerTo Int32Ty),
         Store (Reg (n + 10 + d)) (Reg (n + 11 + d)),
         PtrDisp (Reg 12) (PtrEquivInt (LocalRefCookieOffset L)) (PointerTo Int32Ty),
         Store (Reg (n + 1)) (Reg (n + 13 + d)),
         Call (RuntimeFn PopShadowFrame) [],
         (if c \<noteq> CHR ''V'' then Ret (Reg (if c = CHR ''L'' then n + 9 else n + 6)) else RetVoid)])"

definition stub_body :: "runtime_layout \<Rightarrow> bool \<Rightarrow> char \<Rightarrow> string \<Rightarrow> instr list" where
  "stub_body L is_static c cs =
     (let pre = prologue L is_static c cs @ (if is_static then class_instrs L else []);
          k = (if is_static then 1 else 0);
          acts = bridge_args is_static cs;
          mid = arg_instrs (Reg 1) acts k (length pre);
          args = [Reg 12] @ (if is_static then [Reg 21] else []) @ arg_values acts (length pre)
      in pre @ mid @ epilogue L c args (length pre + length mid))"

section \<open>Running a stub\<close>

text \<open>
  The claims about a generated stub speak of what happens when it runs. The body is
  one basic block without branches, so a run executes the instructions in the order of
  the list.

  Values are symbolic: the null pointer, integers, the address of a runtime object, an
  address displaced by an offset (\<^verbatim>\<open>CreatePtrDisp\<close>), the address of the stack slot made by
  the alloca at a given position, the address of an element of an aggregate (GEP), and
  the aggregate zero. Two addresses are the same exactly when they are built the same
  way.
\<close>

datatype rval =
    VNull
  | VInt int
  | VBool bool
  | VObj nat
  | VDisp rval rval
  | VFrame nat
  | VElem rval "rval list"
  | VZero
  | VVoid
  | VUndef

text \<open>
  A run records one event for each instruction it executes: the calls with their
  arguments and results, the stores with the value and the address, the loads with the
  address and the value read.
\<close>

datatype event =
    ERuntime runtime_support "rval list" rval
  | ENative rval "rval list" rval
  | EStore rval rval
  | EZeroFill rval
  | ELoad rval rval
  | EAlloca llvm_type rval
  | EPure rval
  | EReturn rval

text \<open>
  Modelled from the spec: the runtime that a stub runs in (runtime\_support\_func.h,
  thread.h and the foreign code lie outside jni\_compiler.cc). \<^verbatim>\<open>GetCurrentThread\<close> yields
  the current thread; \<^verbatim>\<open>PushShadowFrame\<close> links a frame onto the thread's frame stack and
  \<^verbatim>\<open>PopShadowFrame\<close> unlinks the top one; \<^verbatim>\<open>DecodeJObjectInThread\<close> and the foreign code
  are parameters: the foreign code, called at an address with a list of arguments,
  returns a value and may change the memory in any way.
\<close>

record world =
  current_thread :: rval
  native_code :: "rval \<Rightarrow> rval list \<Rightarrow> (rval \<Rightarrow> rval) \<Rightarrow> rval \<times> (rval \<Rightarrow> rval)"
  decode_jobject :: "rval \<Rightarrow> rval \<Rightarrow> (rval \<Rightarrow> rval) \<Rightarrow> rval"

record machine =
  regs :: "rval list"
  events :: "event list"
  mem :: "rval \<Rightarrow> rval"
  frames :: "rval list"
  returned :: "rval option"

text \<open>
  Operands: \<open>actual actuals n\<close> is the value the caller passed for parameter \<open>n\<close>, a
  register holds the result of the instruction at its position.
\<close>

definition actual :: "rval list \<Rightarrow> nat \<Rightarrow> rval" where
  "actual actuals n = (if n < length actuals then actuals ! n else VUndef)"

fun eval :: "rval list \<Rightarrow> rval list \<Rightarrow> val \<Rightarrow> rval" where
  "eval actuals rs (Argument n) = actual actuals n"
| "eval actuals rs (Reg n) = (if n < length rs then rs ! n else VUndef)"
| "eval actuals rs (Int32 i) = VInt i"
| "eval actuals rs (PtrEquivInt i) = VInt i"
| "eval actuals rs JNull = VNull"
| "eval actuals rs (ConstantAggregateZero ty) = VZero"

text \<open>
  The store of the aggregate zero fills the whole aggregate at the address, that is the
  address itself and the elements reached from it by a GEP; any other store writes one
  location.
\<close>

definition inside :: "rval \<Rightarrow> rval \<Rightarrow> bool" where
  "inside a l = (l = a \<or> (case l of VElem b idx \<Rightarrow> b = a | _ \<Rightarrow> False))"

definition store :: "rval \<Rightarrow> rval \<Rightarrow> (rval \<Rightarrow> rval) \<Rightarrow> (rval \<Rightarrow> rval)" where
  "store v a m = m(a := v)"

definition zero_fill :: "rval \<Rightarrow> (rval \<Rightarrow> rval) \<Rightarrow> (rval \<Rightarrow> rval)" where
  "zero_fill a m = (\<lambda>l. if inside a l then VZero else m l)"

definition record_step :: "event \<Rightarrow> rval \<Rightarrow> machine \<Rightarrow> machine" where
  "record_step e v s = s \<lparr> regs := regs s @ [v], events := events s @ [e] \<rparr>"

fun step :: "world \<Rightarrow> rval list \<Rightarrow> machine \<Rightarrow> instr \<Rightarrow> machine" where
  "step W actuals s (Call (RuntimeFn GetCurrentThread) args) =
     record_step (ERuntime GetCurrentThread (map (eval actuals (regs s)) args) (current_thread W))
       (current_thread W) s"
| "step W actuals s (Call (RuntimeFn PushShadowFrame) args) =
     record_step (ERuntime PushShadowFrame (map (eval actuals (regs s)) args) VVoid) VVoid
       (s \<lparr> frames := map (eval actuals (regs s)) args @ frames s \<rparr>)"
| "step W actuals s (Call (RuntimeFn PopShadowFrame) args) =
     record_step (ERuntime PopShadowFrame (map (eval actuals (regs s)) args) VVoid) VVoid
       (s \<lparr> frames := drop 1 (frames s) \<rparr>)"
| "step W actuals s (Call (RuntimeFn DecodeJObjectInThread) args) =
     (let vs = map (eval actuals (regs s)) args;
          r = (case vs of [t, v] \<Rightarrow> decode_jobject W t v (mem s) | _ \<Rightarrow> VUndef)
      in record_step (ERuntime DecodeJObjectInThread vs r) r s)"
| "step W actuals s (Call (Indirect f) args) =
     (let code = eval actuals (regs s) f;
          vs = map (eval actuals (regs s)) args;
          rm = native_code W code vs (mem s)
      in record_step (ENative code vs (fst rm)) (fst rm) (s \<lparr> mem := snd rm \<rparr>))"
| "step W actuals s (Alloca ty) =
     record_step (EAlloca ty (VFrame (length (regs s)))) (VFrame (length (regs s))) s"
| "step W actuals s (Store (ConstantAggregateZero ty) a) =
     (let ra = eval actuals (regs s) a
      in record_step (EZeroFill ra) VVoid (s \<lparr> mem := zero_fill ra (mem s) \<rparr>))"
| "step W actuals s (Store v a) =
     (let rv = eval actuals (regs s) v; ra = eval actuals (regs s) a
      in record_step (EStore rv ra) VVoid (s \<lparr> mem := store rv ra (mem s) \<rparr>))"
| "step W actuals s (Load a) =
     (let ra = eval actuals (regs s) a in record_step (ELoad ra (mem s ra)) (mem s ra) s)"
| "step W actuals s (GEP base idx) =
     (let r = VElem (eval actuals (regs s) base) (map (eval actuals (regs s)) idx)
      in record_step (EPure r) r s)"
| "step W actuals s (PtrDisp base offs ty) =
     (let r = VDisp (eval actuals (regs s) base) (eval actuals (regs s) offs)
      in record_step (EPure r) r s)"
| "step W actuals s (BitCast v ty) =
     (let r = eval actuals (regs s) v in record_step (EPure r) r s)"
| "step W actuals s (ICmpEQ x y) =
     (let r = VBool (eval actuals (regs s) x = eval actuals (regs s) y)
      in record_step (EPure r) r s)"
| "step W actuals s (Select c x y) =
     (let r = (if eval actuals (regs s) c = VBool True then eval actuals (regs s) x
               else eval actuals (regs s) y)
      in record_step (EPure r) r s)"
| "step W actuals s (Ret v) =
     (let r = eval actuals (regs s) v
      in record_step (EReturn r) VVoid (s \<lparr> returned := Some r \<rparr>))"
| "step W actuals s RetVoid =
     record_step (EReturn VVoid) VVoid (s \<lparr> returned := Some VVoid \<rparr>)"

definition exec :: "world \<Rightarrow> rval list \<Rightarrow> instr list \<Rightarrow> machine \<Rightarrow> machine" where
  "exec W actuals body s = foldl (step W actuals) s body"

definition run :: "world \<Rightarrow> rval list \<Rightarrow> (rval \<Rightarrow> rval) \<Rightarrow> rval list \<Rightarrow> instr list \<Rightarrow> machine" where
  "run W actuals m0 fs0 body =
     exec W actuals body \<lparr> regs = [], events = [], mem = m0, frames = fs0, returned = None \<rparr>"

section \<open>Observing a run\<close>

text \<open>
  \<open>positions P xs\<close> lists, in ascending order, the positions of the elements of \<open>xs\<close>
  that satisfy \<open>P\<close> (lemma \<open>positions_from_nth\<close>).
\<close>

fun positions_from :: "nat \<Rightarrow> ('a \<Rightarrow> bool) \<Rightarrow> 'a list \<Rightarrow> nat list" where
  "positions_from n P [] = []"
| "positions_from n P (x # xs) =
     (if P x then n # positions_from (Suc n) P xs else positions_from (Suc n) P xs)"

definition positions :: "('a \<Rightarrow> bool) \<Rightarrow> 'a list \<Rightarrow> nat list" where
  "positions P xs = positions_from 0 P xs"

text \<open>
Instructions of a body.
\<close>

definition is_call_to :: "runtime_support \<Rightarrow> instr \<Rightarrow> bool" where
  "is_call_to f i = (case i of Call g args \<Rightarrow> g = RuntimeFn f | _ \<Rightarrow> False)"

definition is_indirect_call :: "instr \<Rightarrow> bool" where
  "is_indirect_call i = (case i of Call g args \<Rightarrow> (case g of Indirect v \<Rightarrow> True | _ \<Rightarrow> False) | _ \<Rightarrow> False)"

definition is_alloca :: "instr \<Rightarrow> bool" where
  "is_alloca i = (case i of Alloca ty \<Rightarrow> True | _ \<Rightarrow> False)"

text \<open>
  Events of a run. Slot \<open>k\<close> of a frame is element \<open>[0, 1, k]\<close> of the frame: field 1
  of the shadow frame is its array of references, field 0 its header. The thread's state
  is the field of the current thread at \<^verbatim>\<open>Thread::StateOffset()\<close>.
\<close>

definition slot_addr :: "rval \<Rightarrow> nat \<Rightarrow> rval" where
  "slot_addr frame k = VElem frame [VInt 0, VInt 1, VInt (int k)]"

definition is_runtime_call :: "runtime_support \<Rightarrow> event \<Rightarrow> bool" where
  "is_runtime_call f e = (case e of ERuntime g args r \<Rightarrow> g = f | _ \<Rightarrow> False)"

definition is_foreign_call :: "event \<Rightarrow> bool" where
  "is_foreign_call e = (case e of ENative code args r \<Rightarrow> True | _ \<Rightarrow> False)"

definition is_slot_addr :: "rval \<Rightarrow> rval \<Rightarrow> bool" where
  "is_slot_addr frame a =
     (case a of VElem b idx \<Rightarrow> b = frame \<and> length idx = 3 \<and> take 2 idx = [VInt 0, VInt 1]
      | _ \<Rightarrow> False)"

definition is_slot_store :: "rval \<Rightarrow> event \<Rightarrow> bool" where
  "is_slot_store frame e = (case e of EStore v a \<Rightarrow> is_slot_addr frame a | _ \<Rightarrow> False)"

definition is_state_store :: "world \<Rightarrow> runtime_layout \<Rightarrow> int \<Rightarrow> event \<Rightarrow> bool" where
  "is_state_store W L st e =
     (e = EStore (VInt st) (VDisp (current_thread W) (VInt (StateOffset L))))"

definition is_load_from :: "rval \<Rightarrow> event \<Rightarrow> bool" where
  "is_load_from a e = (case e of ELoad b v \<Rightarrow> b = a | _ \<Rightarrow> False)"

text \<open>
  The argument lists of the foreign calls of a run, and its stores into the slots of a
  frame, as pairs of the slot's address and the value stored, in the order of the run.
\<close>

definition foreign_args :: "event list \<Rightarrow> rval list list" where
  "foreign_args t = [args. ENative code args r \<leftarrow> t]"

definition slot_stores :: "rval \<Rightarrow> event list \<Rightarrow> (rval \<times> rval) list" where
  "slot_stores frame t = [(a, v). EStore v a \<leftarrow> t, is_slot_addr frame a]"

text \<open>
  What the spec says of the argument marshaller, for a list of parameters given by type
  and value, with slot \<open>k\<close> as the next unused one: a reference is passed as null when
  it is null and as the address of its slot otherwise, and uses one slot; a primitive
  value is passed unchanged.
\<close>

fun marshalled :: "rval \<Rightarrow> (llvm_type \<times> rval) list \<Rightarrow> nat \<Rightarrow> rval list" where
  "marshalled frame [] k = []"
| "marshalled frame ((ty, v) # rest) k =
     (if ty = JObjectTy
      then (if v = VNull then VNull else slot_addr frame k) # marshalled frame rest (k + 1)
      else v # marshalled frame rest k)"

section \<open>What a run of the stub does\<close>

text \<open>
  The definitions of this section are again not part of the compiler nor of the runtime:
  they spell out the state that a run of the closed form reaches, stage by stage, and
  lemma \<open>run_stub_body\<close> below proves that it is the state \<open>run\<close> computes.

  The second loop: the results of its instructions, its events, the memory it leaves,
  and the values of the arguments it adds to the foreign call.
\<close>

fun mid_regs :: "rval list \<Rightarrow> rval \<Rightarrow> (val \<times> llvm_type) list \<Rightarrow> nat \<Rightarrow> rval list" where
  "mid_regs actuals frame [] k = []"
| "mid_regs actuals frame ((a, ty) # rest) k =
     (if ty = JObjectTy then
        [slot_addr frame k, VVoid, VBool (eval actuals [] a = VNull), slot_addr frame k,
         (if eval actuals [] a = VNull then VNull else slot_addr frame k)]
        @ mid_regs actuals frame rest (k + 1)
      else mid_regs actuals frame rest k)"

fun mid_events :: "rval list \<Rightarrow> rval \<Rightarrow> (val \<times> llvm_type) list \<Rightarrow> nat \<Rightarrow> event list" where
  "mid_events actuals frame [] k = []"
| "mid_events actuals frame ((a, ty) # rest) k =
     (if ty = JObjectTy then
        [EPure (slot_addr frame k), EStore (eval actuals [] a) (slot_addr frame k),
         EPure (VBool (eval actuals [] a = VNull)), EPure (slot_addr frame k),
         EPure (if eval actuals [] a = VNull then VNull else slot_addr frame k)]
        @ mid_events actuals frame rest (k + 1)
      else mid_events actuals frame rest k)"

fun mid_mem :: "rval list \<Rightarrow> rval \<Rightarrow> (val \<times> llvm_type) list \<Rightarrow> nat \<Rightarrow> (rval \<Rightarrow> rval) \<Rightarrow> (rval \<Rightarrow> rval)" where
  "mid_mem actuals frame [] k m = m"
| "mid_mem actuals frame ((a, ty) # rest) k m =
     (if ty = JObjectTy
      then mid_mem actuals frame rest (k + 1) (store (eval actuals [] a) (slot_addr frame k) m)
      else mid_mem actuals frame rest k m)"

fun mid_args :: "rval list \<Rightarrow> rval \<Rightarrow> (val \<times> llvm_type) list \<Rightarrow> nat \<Rightarrow> rval list" where
  "mid_args actuals frame [] k = []"
| "mid_args actuals frame ((a, ty) # rest) k =
     (if ty = JObjectTy then
        (if eval actuals [] a = VNull then VNull else slot_addr frame k)
        # mid_args actuals frame rest (k + 1)
      else eval actuals [] a # mid_args actuals frame rest k)"

definition is_argument :: "val \<Rightarrow> bool" where
  "is_argument v = (case v of Argument p \<Rightarrow> True | _ \<Rightarrow> False)"

text \<open>
The three fixed stages and the whole stub.
\<close>

definition prologue_result ::
  "world \<Rightarrow> runtime_layout \<Rightarrow> nat \<Rightarrow> rval list \<Rightarrow> (rval \<Rightarrow> rval) \<Rightarrow> rval list \<Rightarrow> machine" where
  "prologue_result W L n actuals m0 fs0 =
     (let thread = current_thread W;
          method = eval actuals [] (Argument 0);
          frame = VFrame 1;
          mf = VElem frame [VInt 0, VInt 0, VInt 2];
          szf = VElem frame [VInt 0, VInt 0, VInt 0];
          up = VElem frame [VInt 0, VInt 0];
          toms = VDisp thread (VInt (TopOfManagedStackOffset L));
          envf = VDisp thread (VInt (JniEnvOffset L));
          statef = VDisp thread (VInt (StateOffset L));
          codef = VDisp method (VInt (NativeMethodOffset L));
          m1 = store mf toms (store (VInt (int n)) szf (store method mf (zero_fill frame m0)));
          env = m1 envf;
          m2 = store (VInt (kNative L)) statef m1;
          code = m2 codef
      in \<lparr> regs = [thread, frame, VVoid, mf, VVoid, szf, VVoid, up, VVoid, toms, VVoid, envf, env,
                   statef, VVoid, codef, code],
           events = [ERuntime GetCurrentThread [] thread, EAlloca (ShadowFrameTy n) frame,
                     EZeroFill frame, EPure mf, EStore method mf, EPure szf,
                     EStore (VInt (int n)) szf, EPure up, ERuntime PushShadowFrame [up] VVoid,
                     EPure toms, EStore mf toms, EPure envf, ELoad envf env, EPure statef,
                     EStore (VInt (kNative L)) statef, EPure codef, ELoad codef code],
           mem = m2, frames = up # fs0, returned = None \<rparr>)"

definition class_result :: "runtime_layout \<Rightarrow> rval list \<Rightarrow> machine \<Rightarrow> machine" where
  "class_result L actuals s =
     (let method = eval actuals [] (Argument 0);
          clsf = VDisp method (VInt (DeclaringClassOffset L));
          cls = mem s clsf;
          sl = slot_addr (VFrame 1) 0
      in s \<lparr> regs := regs s @ [clsf, cls, sl, VVoid, sl],
             events := events s @ [EPure clsf, ELoad clsf cls, EPure sl, EStore cls sl, EPure sl],
             mem := store cls sl (mem s) \<rparr>)"

definition epilogue_result ::
  "world \<Rightarrow> runtime_layout \<Rightarrow> char \<Rightarrow> rval \<Rightarrow> rval \<Rightarrow> rval list \<Rightarrow> machine \<Rightarrow> machine" where
  "epilogue_result W L c env code argvals s =
     (let thread = current_thread W;
          cookief = VDisp env (VInt (LocalRefCookieOffset L));
          segf = VDisp env (VInt (SegmentStateOffset L));
          statef = VDisp thread (VInt (StateOffset L));
          cookie0 = mem s cookief;
          seg0 = mem s segf;
          m1 = store seg0 cookief (mem s);
          rm = native_code W code argvals m1;
          m2 = store (VInt (kRunnable L)) statef (snd rm);
          dec = decode_jobject W thread (fst rm) m2;
          lc = m2 cookief;
          m3 = store cookie0 cookief (store lc segf m2);
          ret = (if c = CHR ''V'' then VVoid else if c = CHR ''L'' then dec else fst rm)
      in s \<lparr> regs := regs s @ [cookief, cookie0, segf, seg0, cookief, VVoid, fst rm, statef, VVoid]
                 @ (if c = CHR ''L'' then [dec] else [])
                 @ [cookief, lc, segf, VVoid, cookief, VVoid, VVoid, VVoid],
             events := events s @ [EPure cookief, ELoad cookief cookie0, EPure segf, ELoad segf seg0,
                   EPure cookief, EStore seg0 cookief, ENative code argvals (fst rm), EPure statef,
                   EStore (VInt (kRunnable L)) statef]
                 @ (if c = CHR ''L'' then [ERuntime DecodeJObjectInThread [thread, fst rm] dec] else [])
                 @ [EPure cookief, ELoad cookief lc, EPure segf, EStore lc segf, EPure cookief,
                    EStore cookie0 cookief, ERuntime PopShadowFrame [] VVoid, EReturn ret],
             mem := m3, frames := drop 1 (frames s), returned := Some ret \<rparr>)"

definition stub_result ::
  "world \<Rightarrow> runtime_layout \<Rightarrow> bool \<Rightarrow> char \<Rightarrow> string \<Rightarrow> rval list \<Rightarrow> (rval \<Rightarrow> rval) \<Rightarrow>
     rval list \<Rightarrow> machine" where
  "stub_result W L st c cs actuals m0 fs0 =
     (let s1 = prologue_result W L (sirt_size_of st cs) actuals m0 fs0;
          s2 = (if st then class_result L actuals s1 else s1);
          k = (if st then 1 else 0);
          acts = bridge_args st cs;
          frame = VFrame 1;
          s3 = s2 \<lparr> regs := regs s2 @ mid_regs actuals frame acts k,
                     events := events s2 @ mid_events actuals frame acts k,
                     mem := mid_mem actuals frame acts k (mem s2) \<rparr>;
          env = regs s1 ! 12;
          code = regs s1 ! 16;
          argvals = [env] @ (if st then [slot_addr frame 0] else [])
                    @ mid_args actuals frame acts k
      in epilogue_result W L c env code argvals s3)"

text \<open>
  The events of a run, as a function of the values that the run loads or receives: the
  environment, the address of the foreign code, the declaring class, the cookie and the
  segment state before the call, the result of the call, the decoded result and the
  cookie field after the call.
\<close>

definition pre_events ::
  "world \<Rightarrow> runtime_layout \<Rightarrow> nat \<Rightarrow> rval list \<Rightarrow> rval \<Rightarrow> rval \<Rightarrow> event list" where
  "pre_events W L n actuals env code =
     (let thread = current_thread W;
          method = eval actuals [] (Argument 0);
          frame = VFrame 1;
          mf = VElem frame [VInt 0, VInt 0, VInt 2];
          szf = VElem frame [VInt 0, VInt 0, VInt 0];
          up = VElem frame [VInt 0, VInt 0];
          toms = VDisp thread (VInt (TopOfManagedStackOffset L));
          envf = VDisp thread (VInt (JniEnvOffset L));
          statef = VDisp thread (VInt (StateOffset L));
          codef = VDisp method (VInt (NativeMethodOffset L))
      in [ERuntime GetCurrentThread [] thread, EAlloca (ShadowFrameTy n) frame,
          EZeroFill frame, EPure mf, EStore method mf, EPure szf,
          EStore (VInt (int n)) szf, EPure up, ERuntime PushShadowFrame [up] VVoid,
          EPure toms, EStore mf toms, EPure envf, ELoad envf env, EPure statef,
          EStore (VInt (kNative L)) statef, EPure codef, ELoad codef code])"

definition class_events :: "runtime_layout \<Rightarrow> rval list \<Rightarrow> rval \<Rightarrow> event list" where
  "class_events L actuals cls =
     (let clsf = VDisp (eval actuals [] (Argument 0)) (VInt (DeclaringClassOffset L));
          sl = slot_addr (VFrame 1) 0
      in [EPure clsf, ELoad clsf cls, EPure sl, EStore cls sl, EPure sl])"

definition call_events ::
  "world \<Rightarrow> runtime_layout \<Rightarrow> rval \<Rightarrow> rval \<Rightarrow> rval list \<Rightarrow> rval \<Rightarrow> rval \<Rightarrow> rval \<Rightarrow> event list" where
  "call_events W L env code argvals cookie0 seg0 r =
     (let cookief = VDisp env (VInt (LocalRefCookieOffset L));
          segf = VDisp env (VInt (SegmentStateOffset L));
          statef = VDisp (current_thread W) (VInt (StateOffset L))
      in [EPure cookief, ELoad cookief cookie0, EPure segf, ELoad segf seg0,
          EPure cookief, EStore seg0 cookief, ENative code argvals r, EPure statef,
          EStore (VInt (kRunnable L)) statef])"

definition exit_events ::
  "world \<Rightarrow> runtime_layout \<Rightarrow> char \<Rightarrow> rval \<Rightarrow> rval \<Rightarrow> rval \<Rightarrow> rval \<Rightarrow> rval \<Rightarrow> event list" where
  "exit_events W L c env cookie0 r dec lc =
     (let cookief = VDisp env (VInt (LocalRefCookieOffset L));
          segf = VDisp env (VInt (SegmentStateOffset L))
      in (if c = CHR ''L''
          then [ERuntime DecodeJObjectInThread [current_thread W, r] dec] else [])
         @ [EPure cookief, ELoad cookief lc, EPure segf, EStore lc segf, EPure cookief,
            EStore cookie0 cookief, ERuntime PopShadowFrame [] VVoid,
            EReturn (if c = CHR ''V'' then VVoid else if c = CHR ''L'' then dec else r)])"

definition stub_trace ::
  "world \<Rightarrow> runtime_layout \<Rightarrow> bool \<Rightarrow> char \<Rightarrow> string \<Rightarrow> rval list \<Rightarrow>
     rval \<Rightarrow> rval \<Rightarrow> rval \<Rightarrow> rval \<Rightarrow> rval \<Rightarrow> rval \<Rightarrow> rval \<Rightarrow> rval \<Rightarrow> event list" where
  "stub_trace W L st c cs actuals env code cls cookie0 seg0 r dec lc =
     pre_events W L (sirt_size_of st cs) actuals env code
     @ (if st then class_events L actuals cls else [])
     @ mid_events actuals (VFrame 1) (bridge_args st cs) (if st then 1 else 0)
     @ call_events W L env code
         ([env] @ (if st then [slot_addr (VFrame 1) 0] else [])
          @ mid_args actuals (VFrame 1) (bridge_args st cs) (if st then 1 else 0))
         cookie0 seg0 r
     @ exit_events W L c env cookie0 r dec lc"

section \<open>Two methods to run\<close>

text \<open>
  The two scenarios of the spec: the static method \<^verbatim>\<open>int add(int, int)\<close>, shorty
  \<^verbatim>\<open>III\<close>, and the instance method \<^verbatim>\<open>Object get(Object key)\<close>, shorty \<^verbatim>\<open>LL\<close>; a layout
  with distinct offsets; a verifier that rejects every function and one that accepts
  every function.
\<close>

definition example_layout :: runtime_layout where
  "example_layout = \<lparr> TopOfManagedStackOffset = 8, JniEnvOffset = 16, StateOffset = 24,
     kNative = 1, kRunnable = 2, NativeMethodOffset = 40, DeclaringClassOffset = 48,
     LocalRefCookieOffset = 56, SegmentStateOffset = 64 \<rparr>"

definition example_method :: "bool \<Rightarrow> string \<Rightarrow> jni_compiler" where
  "example_method is_static shorty =
     \<lparr> cunit = \<lparr> GetInstructionSet = 1, GetElfIndex = 7 \<rparr>, access_flags = 0x0100,
       method_idx = 3, dex_shorty = (\<lambda>idx. if idx = 3 then shorty else []),
       the_method = \<lparr> IsStatic = is_static, LLVMLongName = ''stub'' \<rparr> \<rparr>"

definition static_add :: jni_compiler where
  "static_add = example_method True ''III''"

definition instance_get :: jni_compiler where
  "instance_get = example_method False ''LL''"

definition reject_all :: "llvm_function \<Rightarrow> bool" where
  "reject_all f = True"

definition accept_all :: "llvm_function \<Rightarrow> bool" where
  "accept_all f = False"

definition example_cm :: compiled_method where
  "example_cm = \<lparr> cm_instruction_set = 1, cm_elf_idx = 7 \<rparr>"

definition instance_get_stub :: llvm_function where
  "instance_get_stub = snd (projr (Compile example_layout accept_all instance_get))"

definition static_add_stub :: llvm_function where
  "static_add_stub = snd (projr (Compile example_layout accept_all static_add))"

text \<open>
  A world to run them in. The thread is object 1 and its environment object 2, with
  cookie 3 and segment state 5; the method is object 10, its native code is at object
  99 and its declaring-class field holds null. The foreign code returns object 12 and
  moves the segment state to 9. \<^verbatim>\<open>get\<close> is called on object 11 with a null key, \<^verbatim>\<open>add\<close>
  with 4 and 5.
\<close>

definition example_world :: world where
  "example_world =
     \<lparr> current_thread = VObj 1,
       native_code = (\<lambda>code args m. (VObj 12, store (VInt 9) (VDisp (VObj 2) (VInt 64)) m)),
       decode_jobject = (\<lambda>thread v m. v) \<rparr>"

definition example_memory :: "rval \<Rightarrow> rval" where
  "example_memory =
     (\<lambda>a. VUndef)
       (VDisp (VObj 1) (VInt 16) := VObj 2,
        VDisp (VObj 2) (VInt 56) := VInt 3,
        VDisp (VObj 2) (VInt 64) := VInt 5,
        VDisp (VObj 10) (VInt 40) := VObj 99,
        VDisp (VObj 10) (VInt 48) := VNull)"

definition get_actuals :: "rval list" where
  "get_actuals = [VObj 10, VObj 11, VNull]"

definition add_actuals :: "rval list" where
  "add_actuals = [VObj 10, VInt 4, VInt 5]"

section \<open>The body that Compile emits\<close>

lemmas builder_defs = Insert_def CreateCall_def CreateAlloca_def CreateStore_def CreateLoad_def
  CreateGEP_def CreateConstGEP2_32_def CreatePtrDisp_def CreateBitCast_def CreateICmpEQ_def
  CreateSelect_def CreateRet_def CreateRetVoid_def LoadFromObjectOffset_def StoreToObjectOffset_def

lemma store_arguments_eq:
  "store_arguments sf acts k args b =
     (k + count_refs acts, args @ arg_values acts (length b), b @ arg_instrs sf acts k (length b))"
  by (induction acts arbitrary: k args b) (auto simp: builder_defs eval_nat_numeral)

lemma count_object_args_eq:
  "count_object_args tys n = n + length (filter (\<lambda>t. t = JObjectTy) tys)"
  by (induction tys arbitrary: n) auto

lemma getJType_L: "getJType CHR ''L'' = JObjectTy"
  by (simp add: getJType_def)

lemma getJType_object: "getJType c = JObjectTy \<longleftrightarrow> c = CHR ''L''"
  by (simp add: getJType_def)

lemma filter_getJType:
  "length (filter (\<lambda>ty. ty = JObjectTy) (map getJType cs)) = length (filter (\<lambda>c. c = CHR ''L'') cs)"
  by (induction cs) (auto simp: getJType_object)

text \<open>
  \<^verbatim>\<open>Compile\<close> aborts on an empty shorty and otherwise returns the closed form.
\<close>

lemma verifyFunction_print:
  "verifyFunction broken f PrintMessageAction = VerifierReturns (broken f)"
  by (simp add: verifyFunction_def)

lemma Compile_eq:
  assumes "dex_shorty jc (method_idx jc) = c # cs"
  shows "Compile L broken jc =
     Inr (\<lparr> cm_instruction_set = GetInstructionSet (cunit jc),
               cm_elf_idx = GetElfIndex (cunit jc) \<rparr>,
          \<lparr> fn_name = LLVMLongName (the_method jc),
             fn_type = FunctionTy (getJType c)
                         (JObjectTy # bridge_arg_types (IsStatic (the_method jc)) cs),
             fn_body = stub_body L (IsStatic (the_method jc)) c cs \<rparr>)"
proof (cases "IsStatic (the_method jc)")
  case True
  show ?thesis
  proof (cases "c = CHR ''L''")
    case L: True
    show ?thesis using assms True L
      by (simp add: Compile_def CreateFunction_def GetFunctionType_def builder_defs Let_def
      store_arguments_eq stub_body_def prologue_def class_instrs_def epilogue_def
      bridge_args_def bridge_arg_types_def target_type_def sirt_size_of_def getJType_L
      verifyFunction_print)
  next
    case L: False
    show ?thesis using assms True L
      by (simp add: Compile_def CreateFunction_def GetFunctionType_def builder_defs Let_def
      store_arguments_eq stub_body_def prologue_def class_instrs_def epilogue_def
      bridge_args_def bridge_arg_types_def target_type_def sirt_size_of_def getJType_L
      verifyFunction_print)
  qed
next
  case False
  show ?thesis
  proof (cases "c = CHR ''L''")
    case L: True
    show ?thesis using assms False L
      by (simp add: Compile_def CreateFunction_def GetFunctionType_def builder_defs Let_def
      store_arguments_eq stub_body_def prologue_def class_instrs_def epilogue_def
      bridge_args_def bridge_arg_types_def target_type_def sirt_size_of_def getJType_L
      verifyFunction_print)
  next
    case L: False
    show ?thesis using assms False L
      by (simp add: Compile_def CreateFunction_def GetFunctionType_def builder_defs Let_def
      store_arguments_eq stub_body_def prologue_def class_instrs_def epilogue_def
      bridge_args_def bridge_arg_types_def target_type_def sirt_size_of_def getJType_L
      verifyFunction_print)
  qed
qed

lemma Compile_empty_shorty:
  assumes "dex_shorty jc (method_idx jc) = []"
  shows "Compile L broken jc = Inl CHECK_shorty_size"
  using assms by (simp add: Compile_def CreateFunction_def GetFunctionType_def)

lemma Compile_InrD:
  assumes "Compile L broken jc = Inr (cm, f)"
  obtains c cs where "dex_shorty jc (method_idx jc) = c # cs"
    and "fn_body f = stub_body L (IsStatic (the_method jc)) c cs"
    and "fn_type f = FunctionTy (getJType c) (JObjectTy # bridge_arg_types (IsStatic (the_method jc)) cs)"
    and "cm = \<lparr> cm_instruction_set = GetInstructionSet (cunit jc), cm_elf_idx = GetElfIndex (cunit jc) \<rparr>"
proof (cases "dex_shorty jc (method_idx jc)")
  case Nil
  then show ?thesis using assms by (simp add: Compile_empty_shorty)
next
  case (Cons c cs)
  then show ?thesis using assms that [of c cs] by (auto simp: Compile_eq [where c = c and cs = cs])
qed

lemma fn_params_compiled:
  assumes "Compile L broken jc = Inr (cm, f)"
  shows "tl (fn_params (fn_type f)) =
     bridge_arg_types (IsStatic (the_method jc)) (tl (dex_shorty jc (method_idx jc)))"
proof -
  obtain c cs where "dex_shorty jc (method_idx jc) = c # cs"
    and "fn_type f = FunctionTy (getJType c) (JObjectTy # bridge_arg_types (IsStatic (the_method jc)) cs)"
    using assms by (rule Compile_InrD)
  then show ?thesis by simp
qed

lemma length_prologue: "length (prologue L st c cs) = 17"
  by (simp add: prologue_def)

lemma length_class_instrs: "length (class_instrs L) = 5"
  by (simp add: class_instrs_def)

lemma stub_body_split:
  "\<exists>pre mid args. stub_body L st c cs = pre @ mid @ epilogue L c args (length pre + length mid) \<and>
     pre = prologue L st c cs @ (if st then class_instrs L else []) \<and>
     mid = arg_instrs (Reg 1) (bridge_args st cs) (if st then 1 else 0) (length pre)"
  by (auto simp: stub_body_def Let_def)

lemma arg_instrs_kinds:
  "i \<in> set (arg_instrs sf acts k n) \<Longrightarrow>
     (\<exists>b idx. i = GEP b idx) \<or> (\<exists>v a. i = Store v a) \<or> (\<exists>x y. i = ICmpEQ x y) \<or>
     (\<exists>v ty. i = BitCast v ty) \<or> (\<exists>c x y. i = Select c x y)"
  by (induction acts arbitrary: k n) (auto split: if_splits)

lemma count_object_args_zip:
  "length ps = length tys \<Longrightarrow> count_object_args tys n = n + count_refs (zip ps tys)"
proof (induction tys arbitrary: ps n)
  case Nil
  then show ?case by simp
next
  case (Cons ty tys)
  then obtain p ps' where "ps = p # ps'" by (cases ps) auto
  then show ?case using Cons by simp
qed

lemma count_object_args_arguments:
  "count_object_args tys n = n + count_refs (zip (map Argument [1 ..< Suc (length tys)]) tys)"
  by (rule count_object_args_zip) (simp del: upt_Suc)

lemma sirt_size_of_count:
  "sirt_size_of st cs = (if st then 1 else 0) + count_refs (bridge_args st cs)"
  unfolding sirt_size_of_def bridge_args_def Let_def
  by (rule count_object_args_arguments)

section \<open>The run of the body\<close>

lemma exec_Nil: "exec W actuals [] s = s"
  by (simp add: exec_def)

lemma exec_Cons: "exec W actuals (i # is) s = exec W actuals is (step W actuals s i)"
  by (simp add: exec_def)

lemma exec_append: "exec W actuals (xs @ ys) s = exec W actuals ys (exec W actuals xs s)"
  by (simp add: exec_def)

lemmas exec_simps = exec_Cons exec_Nil record_step_def Let_def

lemma eval_argument: "is_argument a \<Longrightarrow> eval actuals rs a = eval actuals [] a"
  by (cases a) (simp_all add: is_argument_def)

lemma bridge_args_arguments: "\<forall>(a, ty) \<in> set (bridge_args st cs). is_argument a"
  by (auto simp: bridge_args_def Let_def is_argument_def dest!: set_zip_leftD)

text \<open>
The second loop, by induction on the parameters.
\<close>

lemma length_arg_instrs: "length (arg_instrs sf acts k n) = length (mid_regs actuals frame acts k)"
  by (induction acts arbitrary: k n) auto

lemma exec_arg_instrs:
  assumes "\<forall>(a, ty) \<in> set acts. is_argument a"
    and "f < length (regs s)" and "regs s ! f = frame"
  shows "exec W actuals (arg_instrs (Reg f) acts k (length (regs s))) s =
     s \<lparr> regs := regs s @ mid_regs actuals frame acts k,
         events := events s @ mid_events actuals frame acts k,
         mem := mid_mem actuals frame acts k (mem s) \<rparr>"
  using assms
proof (induction acts arbitrary: k s)
  case Nil
  then show ?case by (simp add: exec_Nil)
next
  case (Cons p acts)
  obtain a ty where p: "p = (a, ty)" by (cases p)
  have arg: "is_argument a" using Cons.prems(1) p by simp
  show ?case
  proof (cases "ty = JObjectTy")
    case False
    then show ?thesis using Cons p by simp
  next
    case True
    let ?s' = "s \<lparr> regs := regs s @ [slot_addr frame k, VVoid, VBool (eval actuals [] a = VNull),
                       slot_addr frame k,
                       (if eval actuals [] a = VNull then VNull else slot_addr frame k)],
                  events := events s @ [EPure (slot_addr frame k),
                       EStore (eval actuals [] a) (slot_addr frame k),
                       EPure (VBool (eval actuals [] a = VNull)), EPure (slot_addr frame k),
                       EPure (if eval actuals [] a = VNull then VNull else slot_addr frame k)],
                  mem := store (eval actuals [] a) (slot_addr frame k) (mem s) \<rparr>"
    have five: "exec W actuals
         [GEP (Reg f) [Int32 0, Int32 1, Int32 (int k)], Store a (Reg (length (regs s))),
          ICmpEQ a JNull, BitCast (Reg (length (regs s))) JObjectTy,
          Select (Reg (length (regs s) + 2)) JNull (Reg (length (regs s) + 3))] s = ?s'"
      using arg Cons.prems(2,3)
      by (cases a) (simp_all add: is_argument_def exec_Cons exec_Nil record_step_def Let_def
          slot_addr_def nth_append)
    have len: "length (regs ?s') = length (regs s) + 5" by simp
    have IH: "exec W actuals (arg_instrs (Reg f) acts (k + 1) (length (regs ?s'))) ?s' =
       ?s' \<lparr> regs := regs ?s' @ mid_regs actuals frame acts (k + 1),
             events := events ?s' @ mid_events actuals frame acts (k + 1),
             mem := mid_mem actuals frame acts (k + 1) (mem ?s') \<rparr>"
      using Cons.prems by (intro Cons.IH) (auto simp: nth_append)
    show ?thesis
      using True p five IH unfolding len
      by (simp add: exec_append del: append_Cons)
  qed
qed

lemma eval_arg_values:
  assumes "\<forall>(a, ty) \<in> set acts. is_argument a"
  shows "map (eval actuals (rs @ mid_regs actuals frame acts k @ ext)) (arg_values acts (length rs)) =
     mid_args actuals frame acts k"
  using assms
proof (induction acts arbitrary: k rs)
  case Nil
  then show ?case by simp
next
  case (Cons p acts)
  obtain a ty where p: "p = (a, ty)" by (cases p)
  have arg: "is_argument a" using Cons.prems(1) p by simp
  show ?case
  proof (cases "ty = JObjectTy")
    case False
    have "eval actuals (rs @ mid_regs actuals frame acts k @ ext) a = eval actuals [] a"
      using arg by (rule eval_argument)
    then show ?thesis using False Cons p by simp
  next
    case True
    let ?five = "[slot_addr frame k, VVoid, VBool (eval actuals [] a = VNull), slot_addr frame k,
         (if eval actuals [] a = VNull then VNull else slot_addr frame k)]"
    have IH: "map (eval actuals ((rs @ ?five) @ mid_regs actuals frame acts (k + 1) @ ext))
                (arg_values acts (length (rs @ ?five))) = mid_args actuals frame acts (k + 1)"
      using Cons.prems by (intro Cons.IH) auto
    have len: "length (rs @ ?five) = length rs + 5" by simp
    show ?thesis
      using True p IH unfolding len
      by (simp add: nth_append)
  qed
qed

text \<open>
The fixed stages, by symbolic execution.
\<close>

lemma exec_prologue:
  "run W actuals m0 fs0 (prologue L st c cs) =
     prologue_result W L (sirt_size_of st cs) actuals m0 fs0"
  by (simp add: run_def prologue_def prologue_result_def exec_simps)

lemma exec_class:
  assumes "length (regs s) = 17" and "regs s ! 1 = VFrame 1"
  shows "exec W actuals (class_instrs L) s = class_result L actuals s"
  using assms
  by (simp add: class_instrs_def class_result_def exec_simps nth_append slot_addr_def)

lemma exec_epilogue:
  assumes "16 < length (regs s)" and "regs s ! 0 = current_thread W" and "regs s ! 12 = env"
    and "regs s ! 16 = code"
    and "\<And>ext. map (eval actuals (regs s @ ext)) args = argvals"
  shows "exec W actuals (epilogue L c args (length (regs s))) s =
     epilogue_result W L c env code argvals s"
proof -
  have args6: "\<And>a b c d e f. map (eval actuals (regs s @ [a, b, c, d, e, f])) args = argvals"
    using assms(5) by blast
  have ne: "regs s \<noteq> []" using assms(1) by auto
  have r0: "\<And>ext. (regs s @ ext) ! 0 = current_thread W"
    using assms(1,2) by (cases "regs s") (simp_all add: nth_append)
  have r12: "\<And>ext. (regs s @ ext) ! 12 = env"
    using assms(1,3) by (cases "regs s") (simp_all add: nth_append)
  have r16: "\<And>ext. (regs s @ ext) ! 16 = code"
    using assms(1,4) by (cases "regs s") (simp_all add: nth_append)
  have ev0: "\<And>ext. eval actuals (regs s @ ext) (Reg 0) = current_thread W"
    using assms(1) r0 ne by simp
  have ev12: "\<And>ext. eval actuals (regs s @ ext) (Reg 12) = env"
    using assms(1) r12 ne by simp
  have ev16: "\<And>ext. eval actuals (regs s @ ext) (Reg 16) = code"
    using assms(1) r16 ne by simp
  have ev0': "eval actuals (regs s) (Reg 0) = current_thread W"
    using ev0 [of "[]"] by simp
  have ev12': "eval actuals (regs s) (Reg 12) = env"
    using ev12 [of "[]"] by simp
  have evn: "\<And>ext k. k < length ext \<Longrightarrow>
      eval actuals (regs s @ ext) (Reg (length (regs s) + k)) = ext ! k"
    by simp
  show ?thesis
  proof (cases "c = CHR ''L''")
    case True
    then show ?thesis using assms(1-4) args6 ne
      by (simp add: epilogue_def epilogue_result_def exec_simps nth_append)
  next
    case False
    then show ?thesis using assms(1-4) args6 ne
      by (simp add: epilogue_def epilogue_result_def exec_simps nth_append)
  qed
qed

lemma prologue_regs:
  "length (regs (prologue_result W L n actuals m0 fs0)) = 17"
  "regs (prologue_result W L n actuals m0 fs0) ! 0 = current_thread W"
  "regs (prologue_result W L n actuals m0 fs0) ! 1 = VFrame 1"
  by (simp_all add: prologue_result_def Let_def)

lemma class_regs:
  "regs (class_result L actuals s) = regs s @ [VDisp (eval actuals [] (Argument 0)) (VInt (DeclaringClassOffset L)),
      mem s (VDisp (eval actuals [] (Argument 0)) (VInt (DeclaringClassOffset L))),
      slot_addr (VFrame 1) 0, VVoid, slot_addr (VFrame 1) 0]"
  by (simp add: class_result_def Let_def)

lemma run_stub_body:
  "run W actuals m0 fs0 (stub_body L st c cs) = stub_result W L st c cs actuals m0 fs0"
proof -
  define s1 where "s1 = prologue_result W L (sirt_size_of st cs) actuals m0 fs0"
  define s2 where "s2 = (if st then class_result L actuals s1 else s1)"
  define k :: nat where "k = (if st then 1 else 0)"
  define acts where "acts = bridge_args st cs"
  define pre where "pre = prologue L st c cs @ (if st then class_instrs L else [])"
  define s3 where "s3 = s2 \<lparr> regs := regs s2 @ mid_regs actuals (VFrame 1) acts k,
                     events := events s2 @ mid_events actuals (VFrame 1) acts k,
                     mem := mid_mem actuals (VFrame 1) acts k (mem s2) \<rparr>"
  define mid where "mid = arg_instrs (Reg 1) acts k (length pre)"
  define args where "args = [Reg 12] @ (if st then [Reg 21] else []) @ arg_values acts (length pre)"
  define argvals where "argvals = [regs s1 ! 12] @ (if st then [slot_addr (VFrame 1) 0] else [])
                    @ mid_args actuals (VFrame 1) acts k"
  have body: "stub_body L st c cs = pre @ mid @ epilogue L c args (length pre + length mid)"
    by (simp add: stub_body_def Let_def pre_def mid_def args_def acts_def k_def)
  have len1: "length (regs s1) = 17" and s1_0: "regs s1 ! 0 = current_thread W"
    and s1_1: "regs s1 ! 1 = VFrame 1"
    unfolding s1_def by (rule prologue_regs)+
  have e1: "run W actuals m0 fs0 (prologue L st c cs) = s1"
    by (simp add: s1_def exec_prologue)
  have e2: "run W actuals m0 fs0 pre = s2"
  proof (cases st)
    case True
    have "run W actuals m0 fs0 pre = exec W actuals (class_instrs L) s1"
      using True e1 by (simp add: pre_def run_def exec_append)
    also have "\<dots> = class_result L actuals s1"
      using len1 s1_1 by (rule exec_class)
    finally show ?thesis using True by (simp add: s2_def)
  next
    case False
    then show ?thesis using e1 by (simp add: pre_def s2_def)
  qed
  have len2: "length (regs s2) = length pre"
    by (simp add: s2_def pre_def len1 class_regs length_prologue length_class_instrs)
  have s2_low: "\<And>i. i < 17 \<Longrightarrow> regs s2 ! i = regs s1 ! i"
    by (simp add: s2_def class_regs nth_append len1)
  have s2_1: "1 < length (regs s2)" "regs s2 ! 1 = VFrame 1"
    using s2_low [of 1] s1_1 by (simp_all add: len2 pre_def length_prologue)
  have e3: "exec W actuals mid s2 = s3"
    unfolding mid_def s3_def len2 [symmetric]
    by (rule exec_arg_instrs) (use s2_1 in \<open>simp_all add: acts_def bridge_args_arguments\<close>)
  have len3: "length (regs s3) = length pre + length mid"
    by (simp add: s3_def len2 mid_def length_arg_instrs [where actuals = actuals and frame = "VFrame 1"])
  have s3_low: "\<And>i. i < 17 \<Longrightarrow> regs s3 ! i = regs s1 ! i"
    using s2_low by (simp add: s3_def nth_append len2 pre_def length_prologue)
  have argv: "map (eval actuals (regs s3 @ ext)) args = argvals" for ext
  proof -
    have a: "map (eval actuals (regs s3 @ ext)) (arg_values acts (length pre)) =
        mid_args actuals (VFrame 1) acts k"
      using eval_arg_values [of acts actuals "regs s2" "VFrame 1" k ext]
      by (simp add: s3_def len2 acts_def bridge_args_arguments)
    have b: "eval actuals (regs s3 @ ext) (Reg 12) = regs s1 ! 12"
      using s3_low [of 12] by (simp add: nth_append len3 pre_def length_prologue)
    have c: "st \<Longrightarrow> eval actuals (regs s3 @ ext) (Reg 21) = slot_addr (VFrame 1) 0"
      by (simp add: s3_def s2_def class_regs nth_append len1)
    show ?thesis using a b c by (simp add: args_def argvals_def)
  qed
  have e4: "exec W actuals (epilogue L c args (length pre + length mid)) s3 =
      epilogue_result W L c (regs s1 ! 12) (regs s1 ! 16) argvals s3"
    unfolding len3 [symmetric]
  proof (rule exec_epilogue)
    show "16 < length (regs s3)" by (simp add: len3 pre_def length_prologue)
    show "regs s3 ! 0 = current_thread W" using s3_low [of 0] s1_0 by simp
    show "regs s3 ! 12 = regs s1 ! 12" using s3_low [of 12] by simp
    show "regs s3 ! 16 = regs s1 ! 16" using s3_low [of 16] by simp
    show "\<And>ext. map (eval actuals (regs s3 @ ext)) args = argvals" by (rule argv)
  qed
  have "run W actuals m0 fs0 (stub_body L st c cs) =
      exec W actuals (epilogue L c args (length pre + length mid))
        (exec W actuals mid (run W actuals m0 fs0 pre))"
    by (simp add: body run_def exec_append)
  also have "\<dots> = epilogue_result W L c (regs s1 ! 12) (regs s1 ! 16) argvals s3"
    by (simp add: e2 e3 e4)
  also have "\<dots> = stub_result W L st c cs actuals m0 fs0"
    by (simp add: stub_result_def Let_def s1_def s2_def s3_def argvals_def acts_def k_def)
  finally show ?thesis .
qed

lemma stub_events_shape:
  "\<exists>env code cls cookie0 seg0 r dec lc.
     events (stub_result W L st c cs actuals m0 fs0) =
       stub_trace W L st c cs actuals env code cls cookie0 seg0 r dec lc"
  by (simp add: stub_result_def epilogue_result_def prologue_result_def class_result_def
      stub_trace_def pre_events_def class_events_def call_events_def exit_events_def Let_def)

section \<open>Positions, arguments and slots\<close>

lemma positions_from_append:
  "positions_from n P (xs @ ys) = positions_from n P xs @ positions_from (n + length xs) P ys"
  by (induction xs arbitrary: n) auto

lemma positions_from_none:
  "(\<And>x. x \<in> set xs \<Longrightarrow> \<not> P x) \<Longrightarrow> positions_from n P xs = []"
  by (induction xs arbitrary: n) auto

lemma positions_from_bounds:
  "i \<in> set (positions_from n P xs) \<Longrightarrow> n \<le> i \<and> i < n + length xs"
  by (induction xs arbitrary: n) (fastforce split: if_splits)+

lemma positions_from_nth:
  "i \<in> set (positions_from n P xs) \<longleftrightarrow> n \<le> i \<and> i < n + length xs \<and> P (xs ! (i - n))"
proof (induction xs arbitrary: n)
  case Nil
  then show ?case by auto
next
  case (Cons x xs)
  show ?case
  proof (cases "i = n")
    case True
    then show ?thesis using positions_from_bounds [of i "Suc n" P xs] by auto
  next
    case False
    then have "i - n = Suc (i - Suc n)" if "n \<le> i" using that by simp
    then show ?thesis using False Cons [of "Suc n"] by (auto simp: nth_Cons')
  qed
qed

lemma prefix_positions:
  fixes P :: "event \<Rightarrow> bool"
  assumes "\<And>j. j \<in> set (positions_from 0 P xs) \<Longrightarrow> Q j"
    and "\<And>j. n \<le> j \<Longrightarrow> Q j" and "length xs = n"
  shows "\<forall>j \<in> set (positions_from 0 P (xs @ ys)). Q j"
  using assms positions_from_bounds [of _ n P ys]
  by (auto simp: positions_from_append)

lemma arg_instrs_no_call:
  "positions_from m is_indirect_call (arg_instrs sf acts k n) = []"
  "positions_from m (is_call_to g) (arg_instrs sf acts k n) = []"
  "positions_from m is_alloca (arg_instrs sf acts k n) = []"
  by (rule positions_from_none; drule arg_instrs_kinds;
      auto simp: is_indirect_call_def is_call_to_def is_alloca_def)+

lemma mid_events_kinds:
  "e \<in> set (mid_events actuals frame acts k) \<Longrightarrow>
     (\<exists>r. e = EPure r) \<or> (\<exists>v k'. e = EStore v (slot_addr frame k'))"
  by (induction acts arbitrary: k) (auto split: if_splits)

lemma mid_events_not:
  assumes "\<And>r. \<not> P (EPure r)" and "\<And>v k'. \<not> P (EStore v (slot_addr frame k'))"
  shows "positions_from n P (mid_events actuals frame acts k) = []"
  using assms mid_events_kinds [of _ actuals frame acts k]
  by (intro positions_from_none) blast

lemma mid_events_slot_count:
  "length (positions_from n (is_slot_store frame) (mid_events actuals frame acts k)) =
     count_refs acts"
  by (induction acts arbitrary: n k)
     (auto simp: is_slot_store_def is_slot_addr_def slot_addr_def)

lemmas event_preds = is_runtime_call_def is_foreign_call_def is_slot_store_def is_slot_addr_def
  is_state_store_def

lemma length_pre_events: "length (pre_events W L n actuals env code) = 17"
  by (simp add: pre_events_def Let_def)

lemma length_class_events: "length (class_events L actuals cls) = 5"
  by (simp add: class_events_def Let_def)

lemma length_call_events: "length (call_events W L env code argvals cookie0 seg0 r) = 9"
  by (simp add: call_events_def Let_def)

lemma foreign_args_append: "foreign_args (xs @ ys) = foreign_args xs @ foreign_args ys"
  by (simp add: foreign_args_def)

lemma foreign_args_Cons:
  "foreign_args (e # es) = (case e of ENative code args r \<Rightarrow> [args] | _ \<Rightarrow> []) @ foreign_args es"
  by (simp add: foreign_args_def)

lemma foreign_args_mid: "foreign_args (mid_events actuals frame acts k) = []"
proof (induction acts arbitrary: k)
  case Nil
  then show ?case by (simp add: foreign_args_def)
next
  case (Cons p acts)
  obtain a ty where p: "p = (a, ty)" by (cases p)
  show ?case using p Cons [of k] Cons [of "k + 1"] by (simp add: foreign_args_Cons)
qed

lemma slot_stores_append: "slot_stores frame (xs @ ys) = slot_stores frame xs @ slot_stores frame ys"
  by (simp add: slot_stores_def)

lemma is_slot_addr_slot: "is_slot_addr frame (slot_addr frame k)"
  by (simp add: is_slot_addr_def slot_addr_def)

lemma slot_stores_mid:
  "slot_stores frame (mid_events actuals frame acts k) =
     zip (map (slot_addr frame) [k ..< k + count_refs acts])
         (map (\<lambda>p. eval actuals [] (fst p)) (filter (\<lambda>p. snd p = JObjectTy) acts))"
proof (induction acts arbitrary: k)
  case Nil
  then show ?case by (simp add: slot_stores_def)
next
  case (Cons p acts)
  obtain a ty where p: "p = (a, ty)" by (cases p)
  show ?case
  proof (cases "ty = JObjectTy")
    case True
    have "slot_stores frame (mid_events actuals frame (p # acts) k) =
        (slot_addr frame k, eval actuals [] a) # slot_stores frame (mid_events actuals frame acts (k + 1))"
      using True p is_slot_addr_slot [of frame k] by (simp add: slot_stores_def)
    then show ?thesis using True p Cons [of "k + 1"] by (simp add: upt_rec [of k])
  next
    case False
    then show ?thesis using p Cons [of k] by simp
  qed
qed

lemma mid_args_marshalled:
  "length ps = length tys \<Longrightarrow>
   mid_args actuals frame (zip (map Argument ps) tys) k =
     marshalled frame (zip tys (map (actual actuals) ps)) k"
proof (induction tys arbitrary: ps k)
  case Nil
  then show ?case by simp
next
  case (Cons ty tys)
  then obtain p ps' where "ps = p # ps'" by (cases ps) auto
  then show ?case using Cons by simp
qed

lemma marshalled_nth:
  "i < length tvs \<Longrightarrow>
   marshalled frame tvs k ! i =
     (if fst (tvs ! i) = JObjectTy
      then (if snd (tvs ! i) = VNull then VNull
            else slot_addr frame (k + length (filter (\<lambda>p. fst p = JObjectTy) (take i tvs))))
      else snd (tvs ! i))"
proof (induction tvs arbitrary: i k)
  case Nil
  then show ?case by simp
next
  case (Cons p tvs)
  obtain ty v where p: "p = (ty, v)" by (cases p)
  show ?case
  proof (cases i)
    case 0
    then show ?thesis using p by simp
  next
    case (Suc j)
    then have j: "j < length tvs" using Cons.prems by simp
    show ?thesis using Suc p Cons.IH [OF j] by simp
  qed
qed

lemma filter_nth_count:
  "i < length xs \<Longrightarrow> P (xs ! i) \<Longrightarrow> filter P xs ! length (filter P (take i xs)) = xs ! i"
proof (induction xs arbitrary: i)
  case Nil
  then show ?case by simp
next
  case (Cons x xs)
  show ?case
  proof (cases i)
    case 0
    then show ?thesis using Cons.prems by simp
  next
    case (Suc j)
    then show ?thesis using Cons by simp
  qed
qed

lemma ref_values_zip:
  "map (\<lambda>p. eval actuals [] (fst p)) (filter (\<lambda>p. snd p = JObjectTy) (zip (map Argument ps) tys)) =
   map snd (filter (\<lambda>p. fst p = JObjectTy) (zip tys (map (actual actuals) ps)))"
proof (induction tys arbitrary: ps)
  case Nil
  then show ?case by simp
next
  case (Cons ty tys)
  show ?case
  proof (cases ps)
    case Nil
    then show ?thesis by simp
  next
    case (Cons p ps')
    then show ?thesis using Cons.IH [of ps'] by simp
  qed
qed

lemma length_filter_zip_fst:
  "length xs = length ys \<Longrightarrow>
   length (filter (\<lambda>p. P (fst p)) (zip xs ys)) = length (filter P xs)"
proof (induction xs arbitrary: ys)
  case Nil
  then show ?case by simp
next
  case (Cons x xs)
  then obtain y ys' where "ys = y # ys'" by (cases ys) auto
  then show ?case using Cons by simp
qed

lemma mid_mem_other:
  "(\<And>k'. a \<noteq> slot_addr frame k') \<Longrightarrow> mid_mem actuals frame acts k m a = m a"
  by (induction acts arbitrary: k m) (auto simp: store_def)

section \<open>The order of the events, the arguments and the memory of every run\<close>

lemma stub_order:
  assumes "Compile L broken jc = Inr (cm, f)"
  shows "\<exists>n c r q.
     events (run W actuals m0 fs0 (fn_body f)) ! 1 = EAlloca (ShadowFrameTy n) (VFrame 1) \<and>
     positions (is_runtime_call PushShadowFrame) (events (run W actuals m0 fs0 (fn_body f))) = [8] \<and>
     events (run W actuals m0 fs0 (fn_body f)) ! 8 =
       ERuntime PushShadowFrame [VElem (VFrame 1) [VInt 0, VInt 0]] VVoid \<and>
     14 \<in> set (positions (is_state_store W L (kNative L))
                  (events (run W actuals m0 fs0 (fn_body f)))) \<and>
     (\<forall>j \<in> set (positions (is_state_store W L (kNative L))
                    (events (run W actuals m0 fs0 (fn_body f)))). 8 < j) \<and>
     length (positions (is_slot_store (VFrame 1)) (events (run W actuals m0 fs0 (fn_body f)))) = n \<and>
     0 < n \<and>
     (\<forall>j \<in> set (positions (is_slot_store (VFrame 1)) (events (run W actuals m0 fs0 (fn_body f)))).
        14 < j \<and> j < c) \<and>
     positions is_foreign_call (events (run W actuals m0 fs0 (fn_body f))) = [c] \<and>
     r \<in> set (positions (is_state_store W L (kRunnable L))
                 (events (run W actuals m0 fs0 (fn_body f)))) \<and>
     positions (is_runtime_call PopShadowFrame) (events (run W actuals m0 fs0 (fn_body f))) = [q] \<and>
     c < r \<and> r < q \<and>
     (\<forall>d \<in> set (positions (is_runtime_call DecodeJObjectInThread)
                    (events (run W actuals m0 fs0 (fn_body f)))). r < d \<and> d < q) \<and>
     (hd (dex_shorty jc (method_idx jc)) = CHR ''L'' \<longleftrightarrow>
        positions (is_runtime_call DecodeJObjectInThread)
          (events (run W actuals m0 fs0 (fn_body f))) \<noteq> [])"
proof -
  obtain c cs where sh: "dex_shorty jc (method_idx jc) = c # cs"
    and body: "fn_body f = stub_body L (IsStatic (the_method jc)) c cs"
    using assms by (rule Compile_InrD)
  define st where "st = IsStatic (the_method jc)"
  define t where "t = events (run W actuals m0 fs0 (fn_body f))"
  define acts where "acts = bridge_args st cs"
  define k :: nat where "k = (if st then 1 else 0)"
  obtain env code cls cookie0 seg0 r dec lc
    where "t = stub_trace W L st c cs actuals env code cls cookie0 seg0 r dec lc"
    using stub_events_shape [of W L st c cs actuals m0 fs0]
    by (auto simp: t_def body run_stub_body st_def)
  then have t: "t = pre_events W L (sirt_size_of st cs) actuals env code
     @ (if st then class_events L actuals cls else [])
     @ mid_events actuals (VFrame 1) acts k
     @ call_events W L env code
         ([env] @ (if st then [slot_addr (VFrame 1) 0] else []) @ mid_args actuals (VFrame 1) acts k)
         cookie0 seg0 r
     @ exit_events W L c env cookie0 r dec lc"
    by (simp add: stub_trace_def acts_def k_def)
  define A where "A = pre_events W L (sirt_size_of st cs) actuals env code
     @ (if st then class_events L actuals cls else []) @ mid_events actuals (VFrame 1) acts k"
  define B where "B = call_events W L env code
         ([env] @ (if st then [slot_addr (VFrame 1) 0] else []) @ mid_args actuals (VFrame 1) acts k)
         cookie0 seg0 r"
  define E where "E = exit_events W L c env cookie0 r dec lc"
  define N where "N = length A"
  have tA: "t = A @ B @ E" by (simp add: t A_def B_def E_def)
  have lenB: "length B = 9" by (simp add: B_def length_call_events)
  have pos: "positions P t = positions_from 0 P A @ positions_from N P B
               @ positions_from (N + 9) P E" for P
    by (simp add: positions_def tA positions_from_append N_def lenB)
  have N17: "17 \<le> N" by (simp add: N_def A_def length_pre_events)
  have A8: "t ! 8 = ERuntime PushShadowFrame [VElem (VFrame 1) [VInt 0, VInt 0]] VVoid"
    by (simp add: t pre_events_def Let_def)
  have pushA: "positions_from 0 (is_runtime_call PushShadowFrame) A = [8]"
    by (simp add: A_def positions_from_append length_pre_events length_class_events
        mid_events_not is_runtime_call_def)
       (simp add: pre_events_def class_events_def Let_def is_runtime_call_def)
  have push: "positions (is_runtime_call PushShadowFrame) t = [8]"
    by (simp add: pos pushA) (simp add: B_def E_def call_events_def exit_events_def Let_def
        is_runtime_call_def)
  define pre where "pre = pre_events W L (sirt_size_of st cs) actuals env code"
  define rest where "rest = (if st then class_events L actuals cls else [])
     @ mid_events actuals (VFrame 1) acts k @ B @ E"
  have tpre: "t = pre @ rest" and lenpre: "length pre = 17"
    by (simp_all add: tA A_def pre_def rest_def length_pre_events)
  have slots_low: "\<forall>j \<in> set (positions (is_slot_store (VFrame 1)) t). 14 < j"
    unfolding positions_def tpre
    by (rule prefix_positions [where n = 17])
       (simp_all add: lenpre, simp add: pre_def pre_events_def Let_def event_preds)
  have slots_eq: "positions (is_slot_store (VFrame 1)) t = positions_from 0 (is_slot_store (VFrame 1)) A"
    by (simp add: pos)
       (simp add: B_def E_def call_events_def exit_events_def Let_def event_preds)
  have slots_high: "\<forall>j \<in> set (positions (is_slot_store (VFrame 1)) t). j < N + 6"
    unfolding slots_eq N_def
    by (auto dest!: positions_from_bounds)
  have slots: "\<forall>j \<in> set (positions (is_slot_store (VFrame 1)) t). 14 < j \<and> j < N + 6"
    using slots_low slots_high by blast
  have alloca: "t ! 1 = EAlloca (ShadowFrameTy (sirt_size_of st cs)) (VFrame 1)"
    by (simp add: t pre_events_def Let_def)
  have c1: "positions_from 0 (is_slot_store (VFrame 1)) (pre_events W L n actuals env code) = []" for n
    by (simp add: pre_events_def Let_def event_preds)
  have c2: "length (positions_from m (is_slot_store (VFrame 1)) (class_events L actuals cls)) = 1" for m
    by (simp add: class_events_def Let_def event_preds slot_addr_def)
  have slot_count:
    "length (positions (is_slot_store (VFrame 1)) t) = sirt_size_of st cs"
    unfolding slots_eq A_def positions_from_append
    using c1 c2
    by (simp add: length_pre_events mid_events_slot_count sirt_size_of_count acts_def)
  have npos: "0 < sirt_size_of st cs"
    by (simp add: sirt_size_of_def count_object_args_eq bridge_arg_types_def)
  have natives: "\<forall>j \<in> set (positions (is_state_store W L (kNative L)) t). 8 < j"
    unfolding positions_def tpre
    by (rule prefix_positions [where n = 17])
       (simp_all add: lenpre, simp add: pre_def pre_events_def Let_def event_preds)
  have native14: "14 \<in> set (positions (is_state_store W L (kNative L)) t)"
    by (simp add: positions_def tpre positions_from_append)
       (simp add: pre_def pre_events_def Let_def event_preds)
  have noA: "positions_from 0 P A = []"
    if "\<And>e. e \<in> set pre \<Longrightarrow> \<not> P e" and "\<And>e. e \<in> set (class_events L actuals cls) \<Longrightarrow> \<not> P e"
      and "\<And>r. \<not> P (EPure r)" and "\<And>v k'. \<not> P (EStore v (slot_addr (VFrame 1) k'))" for P
    using that
    by (simp add: A_def positions_from_append mid_events_not positions_from_none pre_def)
  have foreignA: "positions_from 0 is_foreign_call A = []"
    by (rule noA) (auto simp: pre_def pre_events_def class_events_def Let_def event_preds)
  have popA: "positions_from 0 (is_runtime_call PopShadowFrame) A = []"
    by (rule noA) (auto simp: pre_def pre_events_def class_events_def Let_def event_preds)
  have decA: "positions_from 0 (is_runtime_call DecodeJObjectInThread) A = []"
    by (rule noA) (auto simp: pre_def pre_events_def class_events_def Let_def event_preds)
  have foreign: "positions is_foreign_call t = [N + 6]"
    by (simp add: pos foreignA)
       (simp add: B_def E_def call_events_def exit_events_def Let_def event_preds)
  define d :: nat where "d = (if c = CHR ''L'' then 1 else 0)"
  have pop: "positions (is_runtime_call PopShadowFrame) t = [N + 15 + d]"
    by (simp add: pos popA)
       (simp add: B_def E_def call_events_def exit_events_def Let_def event_preds d_def)
  have dec: "positions (is_runtime_call DecodeJObjectInThread) t = (if c = CHR ''L'' then [N + 9] else [])"
    by (simp add: pos decA)
       (simp add: B_def E_def call_events_def exit_events_def Let_def event_preds)
  have runnable: "N + 8 \<in> set (positions (is_state_store W L (kRunnable L)) t)"
    by (simp add: pos)
       (simp add: B_def call_events_def Let_def event_preds)
  have "N + 6 < N + 8 \<and> N + 8 < N + 15 + d \<and>
      (\<forall>x \<in> set (positions (is_runtime_call DecodeJObjectInThread) t). N + 8 < x \<and> x < N + 15 + d) \<and>
      (hd (dex_shorty jc (method_idx jc)) = CHR ''L'' \<longleftrightarrow>
         positions (is_runtime_call DecodeJObjectInThread) t \<noteq> [])"
    by (simp add: dec sh d_def)
  then show ?thesis
    using alloca push A8 slot_count npos slots native14 natives foreign runnable pop
    unfolding t_def [symmetric] by blast
qed

lemma stub_args_and_slots:
  assumes "Compile L broken jc = Inr (cm, f)"
  shows "\<exists>env cls.
     events (run W actuals m0 fs0 (fn_body f)) ! 12 =
       ELoad (VDisp (current_thread W) (VInt (JniEnvOffset L))) env \<and>
     (IsStatic (the_method jc) \<longrightarrow>
        events (run W actuals m0 fs0 (fn_body f)) ! 18 =
          ELoad (VDisp (actual actuals 0) (VInt (DeclaringClassOffset L))) cls \<and>
        events (run W actuals m0 fs0 (fn_body f)) ! 20 = EStore cls (slot_addr (VFrame 1) 0)) \<and>
     foreign_args (events (run W actuals m0 fs0 (fn_body f))) =
       [env # (if IsStatic (the_method jc) then [slot_addr (VFrame 1) 0] else [])
          @ mid_args actuals (VFrame 1)
              (bridge_args (IsStatic (the_method jc)) (tl (dex_shorty jc (method_idx jc))))
              (if IsStatic (the_method jc) then 1 else 0)] \<and>
     slot_stores (VFrame 1) (events (run W actuals m0 fs0 (fn_body f))) =
       (if IsStatic (the_method jc) then [(slot_addr (VFrame 1) 0, cls)] else [])
       @ slot_stores (VFrame 1)
           (mid_events actuals (VFrame 1)
              (bridge_args (IsStatic (the_method jc)) (tl (dex_shorty jc (method_idx jc))))
              (if IsStatic (the_method jc) then 1 else 0))"
proof -
  obtain c cs where sh: "dex_shorty jc (method_idx jc) = c # cs"
    and body: "fn_body f = stub_body L (IsStatic (the_method jc)) c cs"
    using assms by (rule Compile_InrD)
  define st where "st = IsStatic (the_method jc)"
  define t where "t = events (run W actuals m0 fs0 (fn_body f))"
  obtain env code cls cookie0 seg0 r dec lc
    where t: "t = stub_trace W L st c cs actuals env code cls cookie0 seg0 r dec lc"
    using stub_events_shape [of W L st c cs actuals m0 fs0]
    by (auto simp: t_def body run_stub_body st_def)
  define acts where "acts = bridge_args st cs"
  define k :: nat where "k = (if st then 1 else 0)"
  define pre where "pre = pre_events W L (sirt_size_of st cs) actuals env code"
  define C where "C = (if st then class_events L actuals cls else [])"
  define M where "M = mid_events actuals (VFrame 1) acts k"
  define args where "args = [env] @ (if st then [slot_addr (VFrame 1) 0] else [])
          @ mid_args actuals (VFrame 1) acts k"
  define B where "B = call_events W L env code args cookie0 seg0 r"
  define E where "E = exit_events W L c env cookie0 r dec lc"
  have tA: "t = pre @ C @ M @ B @ E"
    by (simp add: t stub_trace_def pre_def C_def M_def B_def E_def args_def acts_def k_def)
  have e12: "t ! 12 = ELoad (VDisp (current_thread W) (VInt (JniEnvOffset L))) env"
    by (simp add: tA pre_def pre_events_def Let_def)
  have lenpre: "length pre = 17" by (simp add: pre_def length_pre_events)
  have cls: "st \<Longrightarrow> t ! 18 = ELoad (VDisp (actual actuals 0) (VInt (DeclaringClassOffset L))) cls \<and>
      t ! 20 = EStore cls (slot_addr (VFrame 1) 0)"
    by (simp add: tA nth_append lenpre C_def class_events_def Let_def)
  have fa: "foreign_args t = [args]"
    by (simp add: tA foreign_args_append M_def foreign_args_mid)
       (simp add: foreign_args_def pre_def C_def B_def E_def pre_events_def class_events_def
          call_events_def exit_events_def Let_def)
  have ss: "slot_stores (VFrame 1) t =
      (if st then [(slot_addr (VFrame 1) 0, cls)] else []) @ slot_stores (VFrame 1) M"
    by (simp add: tA slot_stores_append)
       (simp add: slot_stores_def pre_def C_def B_def E_def pre_events_def class_events_def
          call_events_def exit_events_def Let_def is_slot_addr_def slot_addr_def)
  show ?thesis
    using e12 cls fa ss
    unfolding t_def [symmetric] st_def [symmetric] args_def M_def acts_def k_def sh
    by (intro exI [of _ env] exI [of _ cls]) simp
qed

lemma stub_marshalling:
  assumes "Compile L broken jc = Inr (cm, f)"
  shows "\<exists>env cls.
     events (run W actuals m0 fs0 (fn_body f)) ! 1 =
       EAlloca (ShadowFrameTy ((if IsStatic (the_method jc) then 1 else 0)
                  + length (filter (\<lambda>ty. ty = JObjectTy) (tl (fn_params (fn_type f))))))
         (VFrame 1) \<and>
     events (run W actuals m0 fs0 (fn_body f)) ! 12 =
       ELoad (VDisp (current_thread W) (VInt (JniEnvOffset L))) env \<and>
     (IsStatic (the_method jc) \<longrightarrow>
        events (run W actuals m0 fs0 (fn_body f)) ! 18 =
          ELoad (VDisp (actual actuals 0) (VInt (DeclaringClassOffset L))) cls \<and>
        events (run W actuals m0 fs0 (fn_body f)) ! 20 = EStore cls (slot_addr (VFrame 1) 0)) \<and>
     foreign_args (events (run W actuals m0 fs0 (fn_body f))) =
       [env # (if IsStatic (the_method jc) then [slot_addr (VFrame 1) 0] else [])
          @ marshalled (VFrame 1)
              (zip (tl (fn_params (fn_type f)))
                   (map (actual actuals) [1 ..< Suc (length (tl (fn_params (fn_type f))))]))
              (if IsStatic (the_method jc) then 1 else 0)] \<and>
     slot_stores (VFrame 1) (events (run W actuals m0 fs0 (fn_body f))) =
       zip (map (slot_addr (VFrame 1))
              [0 ..< (if IsStatic (the_method jc) then 1 else 0)
                       + length (filter (\<lambda>ty. ty = JObjectTy) (tl (fn_params (fn_type f))))])
           ((if IsStatic (the_method jc) then [cls] else [])
            @ map snd (filter (\<lambda>p. fst p = JObjectTy)
                (zip (tl (fn_params (fn_type f)))
                     (map (actual actuals) [1 ..< Suc (length (tl (fn_params (fn_type f))))]))))"
proof -
  define st where "st = IsStatic (the_method jc)"
  define cs where "cs = tl (dex_shorty jc (method_idx jc))"
  define tys where "tys = bridge_arg_types st cs"
  define ps where "ps = [1 ..< Suc (length tys)]"
  define t where "t = events (run W actuals m0 fs0 (fn_body f))"
  define k :: nat where "k = (if st then 1 else 0)"
  define acts where "acts = bridge_args st cs"
  have tys: "tl (fn_params (fn_type f)) = tys"
    using fn_params_compiled [OF assms] by (simp add: tys_def st_def cs_def)
  have acts: "acts = zip (map Argument ps) tys"
    by (simp add: acts_def bridge_args_def Let_def tys_def ps_def)
  have lenps: "length ps = length tys" by (simp add: ps_def del: upt_Suc)
  obtain c cs' where sh: "dex_shorty jc (method_idx jc) = c # cs'"
    and body: "fn_body f = stub_body L (IsStatic (the_method jc)) c cs'"
    using assms by (rule Compile_InrD)
  have cs': "cs' = cs" by (simp add: cs_def sh)
  have t1: "t ! 1 = EAlloca (ShadowFrameTy (sirt_size_of st cs)) (VFrame 1)"
    by (simp add: t_def body run_stub_body stub_result_def epilogue_result_def class_result_def
        prologue_result_def Let_def st_def cs' nth_append)
  have size: "sirt_size_of st cs = k + length (filter (\<lambda>ty. ty = JObjectTy) tys)"
    by (simp add: sirt_size_of_def count_object_args_eq tys_def k_def)
  have cnt: "count_refs acts = length (filter (\<lambda>ty. ty = JObjectTy) tys)"
    using sirt_size_of_count [of st cs] size by (simp add: acts_def k_def)
  obtain env cls where e12: "t ! 12 = ELoad (VDisp (current_thread W) (VInt (JniEnvOffset L))) env"
    and cls: "st \<longrightarrow> t ! 18 = ELoad (VDisp (actual actuals 0) (VInt (DeclaringClassOffset L))) cls \<and>
        t ! 20 = EStore cls (slot_addr (VFrame 1) 0)"
    and fa: "foreign_args t = [env # (if st then [slot_addr (VFrame 1) 0] else [])
          @ mid_args actuals (VFrame 1) acts k]"
    and ss: "slot_stores (VFrame 1) t = (if st then [(slot_addr (VFrame 1) 0, cls)] else [])
       @ slot_stores (VFrame 1) (mid_events actuals (VFrame 1) acts k)"
    using stub_args_and_slots [OF assms, of W actuals m0 fs0]
    unfolding t_def st_def cs_def acts_def k_def by blast
  have fa': "foreign_args t = [env # (if st then [slot_addr (VFrame 1) 0] else [])
          @ marshalled (VFrame 1) (zip tys (map (actual actuals) ps)) k]"
    using fa by (simp add: acts mid_args_marshalled [OF lenps])
  define vals where "vals = map snd (filter (\<lambda>p. fst p = JObjectTy) (zip tys (map (actual actuals) ps)))"
  define r where "r = length (filter (\<lambda>ty. ty = JObjectTy) tys)"
  have mid: "slot_stores (VFrame 1) (mid_events actuals (VFrame 1) acts k) =
      zip (map (slot_addr (VFrame 1)) [k ..< k + r]) vals"
    unfolding slot_stores_mid cnt r_def vals_def
    by (simp add: acts ref_values_zip)
  have ss': "slot_stores (VFrame 1) t =
      zip (map (slot_addr (VFrame 1)) [0 ..< k + r]) ((if st then [cls] else []) @ vals)"
  proof (cases st)
    case True
    have u: "[0 ..< Suc r] = 0 # [Suc 0 ..< Suc r]" by (rule upt_conv_Cons) simp
    have "slot_stores (VFrame 1) t =
        zip (map (slot_addr (VFrame 1)) (0 # [Suc 0 ..< Suc r])) (cls # vals)"
      using True ss mid by (simp add: k_def del: upt_Suc)
    then have "slot_stores (VFrame 1) t = zip (map (slot_addr (VFrame 1)) [0 ..< Suc r]) (cls # vals)"
      by (simp only: u)
    then show ?thesis using True by (simp add: k_def del: upt_Suc)
  next
    case False
    then show ?thesis using ss mid by (simp add: k_def del: upt_Suc)
  qed
  show ?thesis
    using t1 e12 cls fa' ss'
    unfolding tys t_def [symmetric] st_def [symmetric] size r_def vals_def ps_def k_def
    by (intro exI [of _ env] exI [of _ cls]) (simp del: upt_Suc)
qed

lemma stub_final_mem:
  assumes "Compile L broken jc = Inr (cm, f)"
    and "m0 (VDisp (current_thread W) (VInt (JniEnvOffset L))) = env"
    and "JniEnvOffset L \<noteq> TopOfManagedStackOffset L"
    and "env \<noteq> current_thread W"
    and "LocalRefCookieOffset L \<noteq> SegmentStateOffset L"
    and "\<And>code args m. snd (native_code W code args m) (VDisp env (VInt (LocalRefCookieOffset L))) =
           m (VDisp env (VInt (LocalRefCookieOffset L)))"
  shows "mem (run W actuals m0 fs0 (fn_body f)) (VDisp env (VInt (LocalRefCookieOffset L))) =
           m0 (VDisp env (VInt (LocalRefCookieOffset L)))"
    and "mem (run W actuals m0 fs0 (fn_body f)) (VDisp env (VInt (SegmentStateOffset L))) =
           m0 (VDisp env (VInt (SegmentStateOffset L)))"
proof -
  obtain c cs where body: "fn_body f = stub_body L (IsStatic (the_method jc)) c cs"
    using assms(1) by (rule Compile_InrD)
  define st where "st = IsStatic (the_method jc)"
  define s1 where "s1 = prologue_result W L (sirt_size_of st cs) actuals m0 fs0"
  define s2 where "s2 = (if st then class_result L actuals s1 else s1)"
  define k :: nat where "k = (if st then 1 else 0)"
  define acts where "acts = bridge_args st cs"
  define m3 where "m3 = mid_mem actuals (VFrame 1) acts k (mem s2)"
  define cookief where "cookief = VDisp env (VInt (LocalRefCookieOffset L))"
  define segf where "segf = VDisp env (VInt (SegmentStateOffset L))"
  have env12: "regs s1 ! 12 = env"
    using assms(2,3) by (simp add: s1_def prologue_result_def Let_def store_def zero_fill_def inside_def)
  have pre: "mem s1 (VDisp env x) = m0 (VDisp env x)" for x
    using assms(4) by (simp add: s1_def prologue_result_def Let_def store_def zero_fill_def inside_def)
  have cls: "mem s2 (VDisp env x) = m0 (VDisp env x)" for x
    using pre by (simp add: s2_def class_result_def Let_def store_def slot_addr_def)
  have mid: "m3 (VDisp env x) = m0 (VDisp env x)" for x
    unfolding m3_def using cls [of x]
    by (subst mid_mem_other) (simp_all add: slot_addr_def)
  have fin: "mem (run W actuals m0 fs0 (fn_body f)) =
      (let m1 = store (m3 segf) cookief m3;
           rm = native_code W (regs s1 ! 16)
                  ([env] @ (if st then [slot_addr (VFrame 1) 0] else [])
                   @ mid_args actuals (VFrame 1) acts k) m1;
           m2 = store (VInt (kRunnable L)) (VDisp (current_thread W) (VInt (StateOffset L))) (snd rm)
       in store (m3 cookief) cookief (store (m2 cookief) segf m2))"
    by (simp add: body run_stub_body stub_result_def epilogue_result_def Let_def env12
        s1_def [symmetric] st_def [symmetric] s2_def [symmetric] acts_def [symmetric]
        k_def [symmetric] m3_def cookief_def segf_def)
  show "mem (run W actuals m0 fs0 (fn_body f)) (VDisp env (VInt (LocalRefCookieOffset L))) =
           m0 (VDisp env (VInt (LocalRefCookieOffset L)))"
    using mid [of "VInt (LocalRefCookieOffset L)"]
    by (simp add: fin Let_def store_def cookief_def segf_def)
  show "mem (run W actuals m0 fs0 (fn_body f)) (VDisp env (VInt (SegmentStateOffset L))) =
           m0 (VDisp env (VInt (SegmentStateOffset L)))"
    using mid [of "VInt (SegmentStateOffset L)"] assms(4,5,6)
    by (simp add: fin Let_def store_def cookief_def segf_def)
qed

section \<open>The two example methods\<close>

lemma static_add_shorty: "dex_shorty static_add (method_idx static_add) = CHR ''I'' # ''II''"
  by (simp add: static_add_def example_method_def)

lemma instance_get_shorty: "dex_shorty instance_get (method_idx instance_get) = CHR ''L'' # ''L''"
  by (simp add: instance_get_def example_method_def)

lemma instance_get_compiled:
  "Compile example_layout accept_all instance_get = Inr (example_cm, instance_get_stub)"
  by (simp add: instance_get_stub_def example_cm_def Compile_eq [OF instance_get_shorty])
     (simp add: instance_get_def example_method_def)

lemma static_add_compiled:
  "Compile example_layout accept_all static_add = Inr (example_cm, static_add_stub)"
  by (simp add: static_add_stub_def example_cm_def Compile_eq [OF static_add_shorty])
     (simp add: static_add_def example_method_def)

lemma instance_get_body:
  "fn_body instance_get_stub = stub_body example_layout False CHR ''L'' ''L''"
  by (simp add: instance_get_stub_def Compile_eq [OF instance_get_shorty])
     (simp add: instance_get_def example_method_def)

lemma static_add_body:
  "fn_body static_add_stub = stub_body example_layout True CHR ''I'' ''II''"
  by (simp add: static_add_stub_def Compile_eq [OF static_add_shorty])
     (simp add: static_add_def example_method_def)

lemma instance_get_type:
  "fn_type instance_get_stub = FunctionTy JObjectTy [JObjectTy, JObjectTy, JObjectTy]"
  by (simp add: instance_get_stub_def Compile_eq [OF instance_get_shorty])
     (simp add: instance_get_def example_method_def bridge_arg_types_def getJType_def)

lemma bridge_args_get: "bridge_args False ''L'' = [(Argument 1, JObjectTy), (Argument 2, JObjectTy)]"
  by (simp add: bridge_args_def bridge_arg_types_def getJType_def Let_def upt_rec)

lemma bridge_args_add:
  "bridge_args True ''II'' = [(Argument 1, JPrimTy CHR ''I''), (Argument 2, JPrimTy CHR ''I'')]"
  by (simp add: bridge_args_def bridge_arg_types_def getJType_def Let_def upt_rec)

lemma static_add_code:
  "fn_body static_add_stub =
     [Call (RuntimeFn GetCurrentThread) [], Alloca (ShadowFrameTy 1),
      Store (ConstantAggregateZero (ShadowFrameTy 1)) (Reg 1),
      GEP (Reg 1) [Int32 0, Int32 0, Int32 2], Store (Argument 0) (Reg 3),
      GEP (Reg 1) [Int32 0, Int32 0, Int32 0], Store (Int32 1) (Reg 5),
      GEP (Reg 1) [Int32 0, Int32 0], Call (RuntimeFn PushShadowFrame) [Reg 7],
      PtrDisp (Reg 0) (PtrEquivInt 8) (PointerTo (FieldAddrTy (ShadowFrameTy 1) [0, 0, 2])),
      Store (Reg 3) (Reg 9),
      PtrDisp (Reg 0) (PtrEquivInt 16) (PointerTo JObjectTy), Load (Reg 11),
      PtrDisp (Reg 0) (PtrEquivInt 24) (PointerTo Int32Ty), Store (Int32 1) (Reg 13),
      PtrDisp (Argument 0) (PtrEquivInt 40)
        (PointerTo (PointerTo (FunctionTy (JPrimTy CHR ''I'')
           [JObjectTy, JObjectTy, JPrimTy CHR ''I'', JPrimTy CHR ''I'']))),
      Load (Reg 15),
      PtrDisp (Argument 0) (PtrEquivInt 48) (PointerTo JObjectTy), Load (Reg 17),
      GEP (Reg 1) [Int32 0, Int32 1, Int32 0], Store (Reg 18) (Reg 19),
      BitCast (Reg 19) JObjectTy,
      PtrDisp (Reg 12) (PtrEquivInt 56) (PointerTo Int32Ty), Load (Reg 22),
      PtrDisp (Reg 12) (PtrEquivInt 64) (PointerTo Int32Ty), Load (Reg 24),
      PtrDisp (Reg 12) (PtrEquivInt 56) (PointerTo Int32Ty), Store (Reg 25) (Reg 26),
      Call (Indirect (Reg 16)) [Reg 12, Reg 21, Argument 1, Argument 2],
      PtrDisp (Reg 0) (PtrEquivInt 24) (PointerTo Int32Ty), Store (Int32 2) (Reg 29),
      PtrDisp (Reg 12) (PtrEquivInt 56) (PointerTo Int32Ty), Load (Reg 31),
      PtrDisp (Reg 12) (PtrEquivInt 64) (PointerTo Int32Ty), Store (Reg 32) (Reg 33),
      PtrDisp (Reg 12) (PtrEquivInt 56) (PointerTo Int32Ty), Store (Reg 23) (Reg 35),
      Call (RuntimeFn PopShadowFrame) [], Ret (Reg 28)]"
  by (simp add: static_add_body stub_body_def prologue_def class_instrs_def epilogue_def
      Let_def bridge_args_add sirt_size_of_def bridge_arg_types_def target_type_def
      getJType_def example_layout_def)

lemma instance_get_code:
  "fn_body instance_get_stub =
     [Call (RuntimeFn GetCurrentThread) [], Alloca (ShadowFrameTy 2),
      Store (ConstantAggregateZero (ShadowFrameTy 2)) (Reg 1),
      GEP (Reg 1) [Int32 0, Int32 0, Int32 2], Store (Argument 0) (Reg 3),
      GEP (Reg 1) [Int32 0, Int32 0, Int32 0], Store (Int32 2) (Reg 5),
      GEP (Reg 1) [Int32 0, Int32 0], Call (RuntimeFn PushShadowFrame) [Reg 7],
      PtrDisp (Reg 0) (PtrEquivInt 8) (PointerTo (FieldAddrTy (ShadowFrameTy 2) [0, 0, 2])),
      Store (Reg 3) (Reg 9),
      PtrDisp (Reg 0) (PtrEquivInt 16) (PointerTo JObjectTy), Load (Reg 11),
      PtrDisp (Reg 0) (PtrEquivInt 24) (PointerTo Int32Ty), Store (Int32 1) (Reg 13),
      PtrDisp (Argument 0) (PtrEquivInt 40)
        (PointerTo (PointerTo (FunctionTy JObjectTy [JObjectTy, JObjectTy, JObjectTy]))),
      Load (Reg 15),
      GEP (Reg 1) [Int32 0, Int32 1, Int32 0], Store (Argument 1) (Reg 17),
      ICmpEQ (Argument 1) JNull, BitCast (Reg 17) JObjectTy, Select (Reg 19) JNull (Reg 20),
      GEP (Reg 1) [Int32 0, Int32 1, Int32 1], Store (Argument 2) (Reg 22),
      ICmpEQ (Argument 2) JNull, BitCast (Reg 22) JObjectTy, Select (Reg 24) JNull (Reg 25),
      PtrDisp (Reg 12) (PtrEquivInt 56) (PointerTo Int32Ty), Load (Reg 27),
      PtrDisp (Reg 12) (PtrEquivInt 64) (PointerTo Int32Ty), Load (Reg 29),
      PtrDisp (Reg 12) (PtrEquivInt 56) (PointerTo Int32Ty), Store (Reg 30) (Reg 31),
      Call (Indirect (Reg 16)) [Reg 12, Reg 21, Reg 26],
      PtrDisp (Reg 0) (PtrEquivInt 24) (PointerTo Int32Ty), Store (Int32 2) (Reg 34),
      Call (RuntimeFn DecodeJObjectInThread) [Reg 0, Reg 33],
      PtrDisp (Reg 12) (PtrEquivInt 56) (PointerTo Int32Ty), Load (Reg 37),
      PtrDisp (Reg 12) (PtrEquivInt 64) (PointerTo Int32Ty), Store (Reg 38) (Reg 39),
      PtrDisp (Reg 12) (PtrEquivInt 56) (PointerTo Int32Ty), Store (Reg 28) (Reg 41),
      Call (RuntimeFn PopShadowFrame) [], Ret (Reg 36)]"
  by (simp add: instance_get_body stub_body_def prologue_def class_instrs_def epilogue_def
      Let_def bridge_args_get sirt_size_of_def bridge_arg_types_def target_type_def
      getJType_def example_layout_def)

lemma instance_get_events:
  "events (run example_world get_actuals example_memory [] (fn_body instance_get_stub)) =
     [ERuntime GetCurrentThread [] (VObj 1), EAlloca (ShadowFrameTy 2) (VFrame 1),
      EZeroFill (VFrame 1), EPure (VElem (VFrame 1) [VInt 0, VInt 0, VInt 2]),
      EStore (VObj 10) (VElem (VFrame 1) [VInt 0, VInt 0, VInt 2]),
      EPure (VElem (VFrame 1) [VInt 0, VInt 0, VInt 0]),
      EStore (VInt 2) (VElem (VFrame 1) [VInt 0, VInt 0, VInt 0]),
      EPure (VElem (VFrame 1) [VInt 0, VInt 0]),
      ERuntime PushShadowFrame [VElem (VFrame 1) [VInt 0, VInt 0]] VVoid,
      EPure (VDisp (VObj 1) (VInt 8)),
      EStore (VElem (VFrame 1) [VInt 0, VInt 0, VInt 2]) (VDisp (VObj 1) (VInt 8)),
      EPure (VDisp (VObj 1) (VInt 16)), ELoad (VDisp (VObj 1) (VInt 16)) (VObj 2),
      EPure (VDisp (VObj 1) (VInt 24)), EStore (VInt 1) (VDisp (VObj 1) (VInt 24)),
      EPure (VDisp (VObj 10) (VInt 40)), ELoad (VDisp (VObj 10) (VInt 40)) (VObj 99),
      EPure (VElem (VFrame 1) [VInt 0, VInt 1, VInt 0]),
      EStore (VObj 11) (VElem (VFrame 1) [VInt 0, VInt 1, VInt 0]),
      EPure (VBool False), EPure (VElem (VFrame 1) [VInt 0, VInt 1, VInt 0]),
      EPure (VElem (VFrame 1) [VInt 0, VInt 1, VInt 0]),
      EPure (VElem (VFrame 1) [VInt 0, VInt 1, VInt 1]),
      EStore VNull (VElem (VFrame 1) [VInt 0, VInt 1, VInt 1]),
      EPure (VBool True), EPure (VElem (VFrame 1) [VInt 0, VInt 1, VInt 1]),
      EPure VNull,
      EPure (VDisp (VObj 2) (VInt 56)), ELoad (VDisp (VObj 2) (VInt 56)) (VInt 3),
      EPure (VDisp (VObj 2) (VInt 64)), ELoad (VDisp (VObj 2) (VInt 64)) (VInt 5),
      EPure (VDisp (VObj 2) (VInt 56)), EStore (VInt 5) (VDisp (VObj 2) (VInt 56)),
      ENative (VObj 99) [VObj 2, VElem (VFrame 1) [VInt 0, VInt 1, VInt 0], VNull] (VObj 12),
      EPure (VDisp (VObj 1) (VInt 24)), EStore (VInt 2) (VDisp (VObj 1) (VInt 24)),
      ERuntime DecodeJObjectInThread [VObj 1, VObj 12] (VObj 12),
      EPure (VDisp (VObj 2) (VInt 56)), ELoad (VDisp (VObj 2) (VInt 56)) (VInt 5),
      EPure (VDisp (VObj 2) (VInt 64)), EStore (VInt 5) (VDisp (VObj 2) (VInt 64)),
      EPure (VDisp (VObj 2) (VInt 56)), EStore (VInt 3) (VDisp (VObj 2) (VInt 56)),
      ERuntime PopShadowFrame [] VVoid, EReturn (VObj 12)]"
  by (simp add: instance_get_body run_stub_body stub_result_def prologue_result_def
      epilogue_result_def Let_def bridge_args_get sirt_size_of_def bridge_arg_types_def
      getJType_def example_world_def example_layout_def example_memory_def get_actuals_def
      store_def zero_fill_def inside_def slot_addr_def actual_def)

lemma static_add_events:
  "events (run example_world add_actuals example_memory [] (fn_body static_add_stub)) =
     [ERuntime GetCurrentThread [] (VObj 1), EAlloca (ShadowFrameTy 1) (VFrame 1),
      EZeroFill (VFrame 1), EPure (VElem (VFrame 1) [VInt 0, VInt 0, VInt 2]),
      EStore (VObj 10) (VElem (VFrame 1) [VInt 0, VInt 0, VInt 2]),
      EPure (VElem (VFrame 1) [VInt 0, VInt 0, VInt 0]),
      EStore (VInt 1) (VElem (VFrame 1) [VInt 0, VInt 0, VInt 0]),
      EPure (VElem (VFrame 1) [VInt 0, VInt 0]),
      ERuntime PushShadowFrame [VElem (VFrame 1) [VInt 0, VInt 0]] VVoid,
      EPure (VDisp (VObj 1) (VInt 8)),
      EStore (VElem (VFrame 1) [VInt 0, VInt 0, VInt 2]) (VDisp (VObj 1) (VInt 8)),
      EPure (VDisp (VObj 1) (VInt 16)), ELoad (VDisp (VObj 1) (VInt 16)) (VObj 2),
      EPure (VDisp (VObj 1) (VInt 24)), EStore (VInt 1) (VDisp (VObj 1) (VInt 24)),
      EPure (VDisp (VObj 10) (VInt 40)), ELoad (VDisp (VObj 10) (VInt 40)) (VObj 99),
      EPure (VDisp (VObj 10) (VInt 48)), ELoad (VDisp (VObj 10) (VInt 48)) VNull,
      EPure (VElem (VFrame 1) [VInt 0, VInt 1, VInt 0]),
      EStore VNull (VElem (VFrame 1) [VInt 0, VInt 1, VInt 0]),
      EPure (VElem (VFrame 1) [VInt 0, VInt 1, VInt 0]),
      EPure (VDisp (VObj 2) (VInt 56)), ELoad (VDisp (VObj 2) (VInt 56)) (VInt 3),
      EPure (VDisp (VObj 2) (VInt 64)), ELoad (VDisp (VObj 2) (VInt 64)) (VInt 5),
      EPure (VDisp (VObj 2) (VInt 56)), EStore (VInt 5) (VDisp (VObj 2) (VInt 56)),
      ENative (VObj 99) [VObj 2, VElem (VFrame 1) [VInt 0, VInt 1, VInt 0], VInt 4, VInt 5]
        (VObj 12),
      EPure (VDisp (VObj 1) (VInt 24)), EStore (VInt 2) (VDisp (VObj 1) (VInt 24)),
      EPure (VDisp (VObj 2) (VInt 56)), ELoad (VDisp (VObj 2) (VInt 56)) (VInt 5),
      EPure (VDisp (VObj 2) (VInt 64)), EStore (VInt 5) (VDisp (VObj 2) (VInt 64)),
      EPure (VDisp (VObj 2) (VInt 56)), EStore (VInt 3) (VDisp (VObj 2) (VInt 56)),
      ERuntime PopShadowFrame [] VVoid, EReturn (VObj 12)]"
  by (simp add: static_add_body run_stub_body stub_result_def prologue_result_def
      class_result_def epilogue_result_def Let_def bridge_args_add sirt_size_of_def
      bridge_arg_types_def getJType_def example_world_def example_layout_def
      example_memory_def add_actuals_def store_def zero_fill_def inside_def slot_addr_def
      actual_def)

section \<open>The claims\<close>

subsection \<open>C1: the frame is pushed first and popped last\<close>

text \<open>
C1. In every run of a generated stub, the shadow frame is pushed (event 8) before any
  store into one of its reference slots and before the store that sets the thread's
  state to native (event 14); after the foreign call the state is set back to runnable,
  the return value is decoded when the return type is a reference, and only then is the
  frame popped. The aggregate zero-initialisation of the whole frame and the two stores
  into its header precede the push; they are not stores into a slot.
\<close>

theorem frame_pushed_first_popped_last:
  assumes "Compile L broken jc = Inr (cm, f)"
  shows "\<exists>c r q.
     positions (is_runtime_call PushShadowFrame) (events (run W actuals m0 fs0 (fn_body f))) = [8] \<and>
     events (run W actuals m0 fs0 (fn_body f)) ! 8 =
       ERuntime PushShadowFrame [VElem (VFrame 1) [VInt 0, VInt 0]] VVoid \<and>
     (\<forall>j \<in> set (positions (is_slot_store (VFrame 1)) (events (run W actuals m0 fs0 (fn_body f)))).
        8 < j) \<and>
     14 \<in> set (positions (is_state_store W L (kNative L))
                  (events (run W actuals m0 fs0 (fn_body f)))) \<and>
     (\<forall>j \<in> set (positions (is_state_store W L (kNative L))
                    (events (run W actuals m0 fs0 (fn_body f)))). 8 < j) \<and>
     positions is_foreign_call (events (run W actuals m0 fs0 (fn_body f))) = [c] \<and>
     r \<in> set (positions (is_state_store W L (kRunnable L))
                 (events (run W actuals m0 fs0 (fn_body f)))) \<and>
     positions (is_runtime_call PopShadowFrame) (events (run W actuals m0 fs0 (fn_body f))) = [q] \<and>
     c < r \<and> r < q \<and>
     (\<forall>d \<in> set (positions (is_runtime_call DecodeJObjectInThread)
                    (events (run W actuals m0 fs0 (fn_body f)))). r < d \<and> d < q) \<and>
     (hd (dex_shorty jc (method_idx jc)) = CHR ''L'' \<longrightarrow>
        positions (is_runtime_call DecodeJObjectInThread)
          (events (run W actuals m0 fs0 (fn_body f))) \<noteq> [])"
proof -
  obtain n c r q where
    "events (run W actuals m0 fs0 (fn_body f)) ! 1 = EAlloca (ShadowFrameTy n) (VFrame 1) \<and>
     positions (is_runtime_call PushShadowFrame) (events (run W actuals m0 fs0 (fn_body f))) = [8] \<and>
     events (run W actuals m0 fs0 (fn_body f)) ! 8 =
       ERuntime PushShadowFrame [VElem (VFrame 1) [VInt 0, VInt 0]] VVoid \<and>
     14 \<in> set (positions (is_state_store W L (kNative L))
                  (events (run W actuals m0 fs0 (fn_body f)))) \<and>
     (\<forall>j \<in> set (positions (is_state_store W L (kNative L))
                    (events (run W actuals m0 fs0 (fn_body f)))). 8 < j) \<and>
     length (positions (is_slot_store (VFrame 1)) (events (run W actuals m0 fs0 (fn_body f)))) = n \<and>
     0 < n \<and>
     (\<forall>j \<in> set (positions (is_slot_store (VFrame 1)) (events (run W actuals m0 fs0 (fn_body f)))).
        14 < j \<and> j < c) \<and>
     positions is_foreign_call (events (run W actuals m0 fs0 (fn_body f))) = [c] \<and>
     r \<in> set (positions (is_state_store W L (kRunnable L))
                 (events (run W actuals m0 fs0 (fn_body f)))) \<and>
     positions (is_runtime_call PopShadowFrame) (events (run W actuals m0 fs0 (fn_body f))) = [q] \<and>
     c < r \<and> r < q \<and>
     (\<forall>d \<in> set (positions (is_runtime_call DecodeJObjectInThread)
                    (events (run W actuals m0 fs0 (fn_body f)))). r < d \<and> d < q) \<and>
     (hd (dex_shorty jc (method_idx jc)) = CHR ''L'' \<longleftrightarrow>
        positions (is_runtime_call DecodeJObjectInThread)
          (events (run W actuals m0 fs0 (fn_body f))) \<noteq> [])"
    using stub_order [OF assms, of W actuals m0 fs0] by blast
  then have "positions (is_runtime_call PushShadowFrame) (events (run W actuals m0 fs0 (fn_body f))) = [8] \<and>
     events (run W actuals m0 fs0 (fn_body f)) ! 8 =
       ERuntime PushShadowFrame [VElem (VFrame 1) [VInt 0, VInt 0]] VVoid \<and>
     (\<forall>j \<in> set (positions (is_slot_store (VFrame 1)) (events (run W actuals m0 fs0 (fn_body f)))).
        8 < j) \<and>
     14 \<in> set (positions (is_state_store W L (kNative L))
                  (events (run W actuals m0 fs0 (fn_body f)))) \<and>
     (\<forall>j \<in> set (positions (is_state_store W L (kNative L))
                    (events (run W actuals m0 fs0 (fn_body f)))). 8 < j) \<and>
     positions is_foreign_call (events (run W actuals m0 fs0 (fn_body f))) = [c] \<and>
     r \<in> set (positions (is_state_store W L (kRunnable L))
                 (events (run W actuals m0 fs0 (fn_body f)))) \<and>
     positions (is_runtime_call PopShadowFrame) (events (run W actuals m0 fs0 (fn_body f))) = [q] \<and>
     c < r \<and> r < q \<and>
     (\<forall>d \<in> set (positions (is_runtime_call DecodeJObjectInThread)
                    (events (run W actuals m0 fs0 (fn_body f)))). r < d \<and> d < q) \<and>
     (hd (dex_shorty jc (method_idx jc)) = CHR ''L'' \<longrightarrow>
        positions (is_runtime_call DecodeJObjectInThread)
          (events (run W actuals m0 fs0 (fn_body f))) \<noteq> [])"
    by fastforce
  then show ?thesis by blast
qed

text \<open>
The instance method \<^verbatim>\<open>Object get(Object key)\<close>, called with a null key: the push is
  event 8, the slots are filled at 18 and 23, the state is native from 14 and runnable
  from 35, the decode is event 36 and the pop event 43.
\<close>

theorem frame_pushed_first_popped_last_witness:
  "Compile example_layout accept_all instance_get = Inr (example_cm, instance_get_stub) \<and>
   positions (is_runtime_call PushShadowFrame)
     (events (run example_world get_actuals example_memory [] (fn_body instance_get_stub))) = [8] \<and>
   positions (is_slot_store (VFrame 1))
     (events (run example_world get_actuals example_memory [] (fn_body instance_get_stub))) = [18, 23] \<and>
   positions (is_state_store example_world example_layout (kNative example_layout))
     (events (run example_world get_actuals example_memory [] (fn_body instance_get_stub))) = [14] \<and>
   positions (is_state_store example_world example_layout (kRunnable example_layout))
     (events (run example_world get_actuals example_memory [] (fn_body instance_get_stub))) = [35] \<and>
   positions (is_runtime_call DecodeJObjectInThread)
     (events (run example_world get_actuals example_memory [] (fn_body instance_get_stub))) = [36] \<and>
   positions (is_runtime_call PopShadowFrame)
     (events (run example_world get_actuals example_memory [] (fn_body instance_get_stub))) = [43]"
proof -
  have push: "positions (is_runtime_call PushShadowFrame)
     (events (run example_world get_actuals example_memory [] (fn_body instance_get_stub))) = [8]"
    using frame_pushed_first_popped_last [OF instance_get_compiled,
        of example_world get_actuals example_memory "[]"]
    by blast
  have rest: "positions (is_slot_store (VFrame 1))
     (events (run example_world get_actuals example_memory [] (fn_body instance_get_stub))) = [18, 23] \<and>
   positions (is_state_store example_world example_layout (kNative example_layout))
     (events (run example_world get_actuals example_memory [] (fn_body instance_get_stub))) = [14] \<and>
   positions (is_state_store example_world example_layout (kRunnable example_layout))
     (events (run example_world get_actuals example_memory [] (fn_body instance_get_stub))) = [35] \<and>
   positions (is_runtime_call DecodeJObjectInThread)
     (events (run example_world get_actuals example_memory [] (fn_body instance_get_stub))) = [36] \<and>
   positions (is_runtime_call PopShadowFrame)
     (events (run example_world get_actuals example_memory [] (fn_body instance_get_stub))) = [43]"
    by (simp add: instance_get_events positions_def event_preds)
       (simp add: example_world_def example_layout_def)
  show ?thesis using instance_get_compiled push rest by blast
qed

subsection \<open>C2: the size and the header of the shadow frame\<close>

text \<open>
C2, as stated, fails: the extra slot does not depend on the method being static.
  \<^verbatim>\<open>Object get(Object key)\<close> is an instance method whose shorty has one reference-typed
  argument, so the claim gives its frame one slot. The stub allocates a frame of two slots
  and stores the count 2 into the header.
\<close>

theorem receiver_takes_a_slot:
  "Compile example_layout accept_all instance_get = Inr (example_cm, instance_get_stub) \<and>
   \<not> IsStatic (the_method instance_get) \<and>
   tl (dex_shorty instance_get (method_idx instance_get)) = ''L'' \<and>
   length (filter (\<lambda>c. c = CHR ''L'') (tl (dex_shorty instance_get (method_idx instance_get))))
     + (if IsStatic (the_method instance_get) then 1 else 0) = 1 \<and>
   take 7 (fn_body instance_get_stub) =
     [Call (RuntimeFn GetCurrentThread) [],
      Alloca (ShadowFrameTy 2),
      Store (ConstantAggregateZero (ShadowFrameTy 2)) (Reg 1),
      GEP (Reg 1) [Int32 0, Int32 0, Int32 2],
      Store (Argument 0) (Reg 3),
      GEP (Reg 1) [Int32 0, Int32 0, Int32 0],
      Store (Int32 2) (Reg 5)]"
proof -
  have "\<not> IsStatic (the_method instance_get)"
    by (simp add: instance_get_def example_method_def)
  then show ?thesis
    using instance_get_compiled
    by (simp add: instance_get_shorty instance_get_code)
qed

text \<open>
C2, amended: the stub allocates one shadow frame, and its type has one slot more than
  the shorty has reference-typed arguments, for a static and for an instance method
  alike. The count runs over the stub's parameters of the object type after the method
  pointer, which are the receiver, for an instance method, followed by the arguments of
  the shorty, and adds one when the method is static. The frame is zero-initialised by
  one store of the aggregate zero, then the method pointer goes into header field 2 and
  the slot count into header field 0.
\<close>

theorem shadow_frame_allocation:
  assumes "Compile L broken jc = Inr (cm, f)"
  shows "tl (fn_params (fn_type f)) =
           (if IsStatic (the_method jc) then [] else [getJType CHR ''L''])
           @ map getJType (tl (dex_shorty jc (method_idx jc))) \<and>
         length (filter (\<lambda>ty. ty = JObjectTy) (tl (fn_params (fn_type f))))
           + (if IsStatic (the_method jc) then 1 else 0) =
           Suc (length (filter (\<lambda>c. c = CHR ''L'') (tl (dex_shorty jc (method_idx jc))))) \<and>
         positions is_alloca (fn_body f) = [1] \<and>
         take 7 (fn_body f) =
           [Call (RuntimeFn GetCurrentThread) [],
            Alloca (ShadowFrameTy
              (Suc (length (filter (\<lambda>c. c = CHR ''L'') (tl (dex_shorty jc (method_idx jc))))))),
            Store (ConstantAggregateZero (ShadowFrameTy
              (Suc (length (filter (\<lambda>c. c = CHR ''L'') (tl (dex_shorty jc (method_idx jc)))))))) (Reg 1),
            GEP (Reg 1) [Int32 0, Int32 0, Int32 2],
            Store (Argument 0) (Reg 3),
            GEP (Reg 1) [Int32 0, Int32 0, Int32 0],
            Store (Int32 (int
              (Suc (length (filter (\<lambda>c. c = CHR ''L'') (tl (dex_shorty jc (method_idx jc)))))))) (Reg 5)]"
proof -
  obtain c cs where sh: "dex_shorty jc (method_idx jc) = c # cs"
    and body: "fn_body f = stub_body L (IsStatic (the_method jc)) c cs"
    using assms by (rule Compile_InrD)
  define st where "st = IsStatic (the_method jc)"
  define n where "n = Suc (length (filter (\<lambda>c. c = CHR ''L'') cs))"
  have tys: "tl (fn_params (fn_type f)) = bridge_arg_types st cs"
    using fn_params_compiled [OF assms] by (simp add: st_def sh)
  have cnt: "length (filter (\<lambda>ty. ty = JObjectTy) (bridge_arg_types st cs))
           + (if st then 1 else 0) = n"
    using filter_getJType [of cs] by (simp add: n_def bridge_arg_types_def)
  have n: "sirt_size_of st cs = n"
    using cnt by (simp add: sirt_size_of_def count_object_args_eq)
  obtain pre mid args where split: "stub_body L st c cs = pre @ mid @ epilogue L c args (length pre + length mid)"
    and pre: "pre = prologue L st c cs @ (if st then class_instrs L else [])"
    and mid: "mid = arg_instrs (Reg 1) (bridge_args st cs) (if st then 1 else 0) (length pre)"
    using stub_body_split [of L st c cs] by blast
  have a: "positions is_alloca (stub_body L st c cs) = [1]"
    by (simp add: positions_def split positions_from_append mid arg_instrs_no_call)
       (simp add: pre prologue_def class_instrs_def epilogue_def positions_from_append
          is_alloca_def Let_def)
  have b: "take 7 (stub_body L st c cs) =
      [Call (RuntimeFn GetCurrentThread) [], Alloca (ShadowFrameTy n),
       Store (ConstantAggregateZero (ShadowFrameTy n)) (Reg 1),
       GEP (Reg 1) [Int32 0, Int32 0, Int32 2], Store (Argument 0) (Reg 3),
       GEP (Reg 1) [Int32 0, Int32 0, Int32 0], Store (Int32 (int n)) (Reg 5)]"
    by (simp add: split pre prologue_def n)
  have p: "bridge_arg_types st cs =
      (if st then [] else [getJType CHR ''L'']) @ map getJType cs"
    by (simp add: bridge_arg_types_def getJType_L)
  show ?thesis
    unfolding body st_def [symmetric] tys sh list.sel n_def [symmetric]
    using a b cnt p by blast
qed

text \<open>
The static \<^verbatim>\<open>int add(int, int)\<close> gets a frame of one slot (the class), the instance
  method \<^verbatim>\<open>Object get(Object key)\<close> one of two slots (receiver and key).
\<close>

theorem shadow_frame_allocation_witness:
  "Compile example_layout accept_all static_add = Inr (example_cm, static_add_stub) \<and>
   positions is_alloca (fn_body static_add_stub) = [1] \<and>
   fn_body static_add_stub ! 1 = Alloca (ShadowFrameTy 1) \<and>
   fn_body static_add_stub ! 6 = Store (Int32 1) (Reg 5) \<and>
   fn_body instance_get_stub ! 1 = Alloca (ShadowFrameTy 2) \<and>
   fn_body instance_get_stub ! 6 = Store (Int32 2) (Reg 5)"
proof -
  have "positions is_alloca (fn_body static_add_stub) = [1]"
    using shadow_frame_allocation [OF static_add_compiled] by blast
  then show ?thesis
    using static_add_compiled by (simp add: static_add_code instance_get_code)
qed

subsection \<open>C3: reference arguments\<close>

text \<open>
C3. Let parameter \<open>i\<close> of the stub (counted after the method pointer) have the object
  type, and let \<open>k\<close> be the number of slots used before it: one for the class of a static
  method, and one for each earlier parameter of the object type. Then the \<open>k\<close>-th slot
  store of the run writes the parameter's value into slot \<open>k\<close>, and the value passed to
  the foreign callee for it is null when that value is null and the address of slot \<open>k\<close>
  otherwise; for a null argument it is not a slot address.
\<close>

theorem reference_argument_marshalling:
  assumes "Compile L broken jc = Inr (cm, f)"
    and "i < length (tl (fn_params (fn_type f)))"
    and "tl (fn_params (fn_type f)) ! i = JObjectTy"
  shows "\<exists>args.
     foreign_args (events (run W actuals m0 fs0 (fn_body f))) = [args] \<and>
     (if IsStatic (the_method jc) then 1 else 0)
        + length (filter (\<lambda>ty. ty = JObjectTy) (take i (tl (fn_params (fn_type f)))))
       < length (slot_stores (VFrame 1) (events (run W actuals m0 fs0 (fn_body f)))) \<and>
     slot_stores (VFrame 1) (events (run W actuals m0 fs0 (fn_body f)))
       ! ((if IsStatic (the_method jc) then 1 else 0)
            + length (filter (\<lambda>ty. ty = JObjectTy) (take i (tl (fn_params (fn_type f)))))) =
       (slot_addr (VFrame 1)
          ((if IsStatic (the_method jc) then 1 else 0)
             + length (filter (\<lambda>ty. ty = JObjectTy) (take i (tl (fn_params (fn_type f)))))),
        actual actuals (Suc i)) \<and>
     args ! ((if IsStatic (the_method jc) then 2 else 1) + i) =
       (if actual actuals (Suc i) = VNull then VNull
        else slot_addr (VFrame 1)
          ((if IsStatic (the_method jc) then 1 else 0)
             + length (filter (\<lambda>ty. ty = JObjectTy) (take i (tl (fn_params (fn_type f))))))) \<and>
     (actual actuals (Suc i) = VNull \<longrightarrow>
        \<not> is_slot_addr (VFrame 1) (args ! ((if IsStatic (the_method jc) then 2 else 1) + i)))"
proof -
  define st where "st = IsStatic (the_method jc)"
  define t where "t = events (run W actuals m0 fs0 (fn_body f))"
  define tys where "tys = tl (fn_params (fn_type f))"
  define ps where "ps = [1 ..< Suc (length tys)]"
  define tvs where "tvs = zip tys (map (actual actuals) ps)"
  define k0 :: nat where "k0 = (if st then 1 else 0)"
  define k where "k = k0 + length (filter (\<lambda>ty. ty = JObjectTy) (take i tys))"
  define r where "r = length (filter (\<lambda>ty. ty = JObjectTy) tys)"
  define vals where "vals = map snd (filter (\<lambda>p. fst p = JObjectTy) tvs)"
  have i: "i < length tys" and ref: "tys ! i = JObjectTy"
    using assms(2,3) by (simp_all add: tys_def)
  have lenps: "length ps = length tys" by (simp add: ps_def del: upt_Suc)
  have lentvs: "length tvs = length tys" by (simp add: tvs_def lenps)
  have psi: "ps ! i = Suc i" using i by (simp add: ps_def del: upt_Suc)
  have tvsi: "tvs ! i = (JObjectTy, actual actuals (Suc i))"
    using i ref lenps psi by (simp add: tvs_def)
  obtain env cls where
    fa: "foreign_args t = [env # (if st then [slot_addr (VFrame 1) 0] else [])
          @ marshalled (VFrame 1) tvs k0]"
    and ss: "slot_stores (VFrame 1) t =
       zip (map (slot_addr (VFrame 1)) [0 ..< k0 + r]) ((if st then [cls] else []) @ vals)"
    using stub_marshalling [OF assms(1), of W actuals m0 fs0]
    unfolding t_def st_def tys_def tvs_def ps_def k0_def r_def vals_def by blast
  define args where "args = env # (if st then [slot_addr (VFrame 1) 0] else [])
          @ marshalled (VFrame 1) tvs k0"
  have cnt: "length (filter (\<lambda>p. fst p = JObjectTy) (take i tvs)) =
      length (filter (\<lambda>ty. ty = JObjectTy) (take i tys))"
    using length_filter_zip_fst [of "take i tys" "take i (map (actual actuals) ps)" "\<lambda>ty. ty = JObjectTy"]
    by (simp add: tvs_def take_zip lenps)
  have argi: "args ! ((if st then 2 else 1) + i) =
      (if actual actuals (Suc i) = VNull then VNull else slot_addr (VFrame 1) k)"
    using marshalled_nth [of i tvs "VFrame 1" k0] i
    by (simp add: args_def lentvs tvsi cnt k_def nth_append)
  have lenvals: "length vals = r"
    using length_filter_zip_fst [of tys "map (actual actuals) ps" "\<lambda>ty. ty = JObjectTy"]
    by (simp add: vals_def tvs_def r_def lenps)
  have less: "length (filter (\<lambda>ty. ty = JObjectTy) (take i tys)) < r"
  proof -
    have "tys = take i tys @ tys ! i # drop (Suc i) tys"
      using i by (rule id_take_nth_drop)
    then have "filter (\<lambda>ty. ty = JObjectTy) tys =
        filter (\<lambda>ty. ty = JObjectTy) (take i tys) @ JObjectTy
          # filter (\<lambda>ty. ty = JObjectTy) (drop (Suc i) tys)"
      using ref by (metis (mono_tags, lifting) filter.simps(2) filter_append)
    then show ?thesis by (simp add: r_def)
  qed
  have klt: "k < k0 + r" using less by (simp add: k_def)
  have vali: "vals ! length (filter (\<lambda>ty. ty = JObjectTy) (take i tys)) = actual actuals (Suc i)"
    using filter_nth_count [of i tvs "\<lambda>p. fst p = JObjectTy"] i less lenvals
    by (simp add: vals_def lentvs tvsi cnt)
  have lenss: "length (slot_stores (VFrame 1) t) = k0 + r"
    using ss lenvals by (simp add: k0_def del: upt_Suc)
  have ssk: "slot_stores (VFrame 1) t ! k = (slot_addr (VFrame 1) k, actual actuals (Suc i))"
    using klt vali lenvals ss
    by (simp add: k_def k0_def nth_append del: upt_Suc)
  have nonslot: "actual actuals (Suc i) = VNull \<longrightarrow>
      \<not> is_slot_addr (VFrame 1) (args ! ((if st then 2 else 1) + i))"
    by (simp add: argi is_slot_addr_def)
  have fa': "foreign_args t = [args]"
    unfolding args_def by (rule fa)
  have kl: "k < length (slot_stores (VFrame 1) t)"
    using klt lenss by simp
  have "foreign_args t = [args] \<and> k < length (slot_stores (VFrame 1) t) \<and>
      slot_stores (VFrame 1) t ! k = (slot_addr (VFrame 1) k, actual actuals (Suc i)) \<and>
      args ! ((if st then 2 else 1) + i) =
        (if actual actuals (Suc i) = VNull then VNull else slot_addr (VFrame 1) k) \<and>
      (actual actuals (Suc i) = VNull \<longrightarrow>
        \<not> is_slot_addr (VFrame 1) (args ! ((if st then 2 else 1) + i)))"
    using fa' kl ssk argi nonslot by blast
  then show ?thesis
    unfolding t_def st_def tys_def k_def k0_def
    by (intro exI [of _ args])
qed

text \<open>
\<^verbatim>\<open>Object get(Object key)\<close> called with a null key: the key is parameter 1, its slot
  is slot 1, null is stored there and null is what the callee receives.
\<close>

theorem reference_argument_marshalling_witness:
  "Compile example_layout accept_all instance_get = Inr (example_cm, instance_get_stub) \<and>
   1 < length (tl (fn_params (fn_type instance_get_stub))) \<and>
   tl (fn_params (fn_type instance_get_stub)) ! 1 = JObjectTy \<and>
   actual get_actuals 2 = VNull \<and>
   length (foreign_args
     (events (run example_world get_actuals example_memory [] (fn_body instance_get_stub)))) = 1 \<and>
   hd (foreign_args
     (events (run example_world get_actuals example_memory [] (fn_body instance_get_stub)))) ! 2 =
     VNull \<and>
   slot_stores (VFrame 1)
     (events (run example_world get_actuals example_memory [] (fn_body instance_get_stub))) ! 1 =
     (slot_addr (VFrame 1) 1, VNull)"
proof -
  have h2: "1 < length (tl (fn_params (fn_type instance_get_stub)))"
    and h3: "tl (fn_params (fn_type instance_get_stub)) ! 1 = JObjectTy"
    by (simp_all add: instance_get_type)
  have "length (foreign_args
     (events (run example_world get_actuals example_memory [] (fn_body instance_get_stub)))) = 1"
    using reference_argument_marshalling [OF instance_get_compiled h2 h3,
        of example_world get_actuals example_memory "[]"]
    by auto
  moreover have "actual get_actuals 2 = VNull \<and>
   hd (foreign_args
     (events (run example_world get_actuals example_memory [] (fn_body instance_get_stub)))) ! 2 =
     VNull \<and>
   slot_stores (VFrame 1)
     (events (run example_world get_actuals example_memory [] (fn_body instance_get_stub))) ! 1 =
     (slot_addr (VFrame 1) 1, VNull)"
    by (simp add: instance_get_events foreign_args_def slot_stores_def is_slot_addr_def
        slot_addr_def)
       (simp add: actual_def get_actuals_def)
  ultimately show ?thesis using instance_get_compiled h2 h3 by blast
qed

subsection \<open>C4: the saved cookie and the segment state\<close>

text \<open>
C4. Let the environment be the object that the thread's environment field points to,
  an object other than the thread, with its cookie and its segment state in different
  fields. Let the foreign call change the memory in any way that leaves the cookie field
  alone (creating local references moves the segment state only). Then, when the stub
  returns, the cookie field and the segment-state field hold the values they held when
  the stub was entered.
\<close>

theorem scope_cookie_round_trip:
  assumes "Compile L broken jc = Inr (cm, f)"
    and "m0 (VDisp (current_thread W) (VInt (JniEnvOffset L))) = env"
    and "JniEnvOffset L \<noteq> TopOfManagedStackOffset L"
    and "env \<noteq> current_thread W"
    and "LocalRefCookieOffset L \<noteq> SegmentStateOffset L"
    and "\<And>code args m. snd (native_code W code args m) (VDisp env (VInt (LocalRefCookieOffset L))) =
           m (VDisp env (VInt (LocalRefCookieOffset L)))"
  shows "mem (run W actuals m0 fs0 (fn_body f)) (VDisp env (VInt (LocalRefCookieOffset L))) =
           m0 (VDisp env (VInt (LocalRefCookieOffset L))) \<and>
         mem (run W actuals m0 fs0 (fn_body f)) (VDisp env (VInt (SegmentStateOffset L))) =
           m0 (VDisp env (VInt (SegmentStateOffset L)))"
  using assms by (intro conjI stub_final_mem [where broken = broken and jc = jc and cm = cm]) auto

text \<open>
In the example the foreign code moves the segment state to 9; after the stub the
  cookie is 3 and the segment state 5, as before.
\<close>

theorem scope_cookie_round_trip_witness:
  "Compile example_layout accept_all instance_get = Inr (example_cm, instance_get_stub) \<and>
   example_memory (VDisp (current_thread example_world) (VInt (JniEnvOffset example_layout))) = VObj 2 \<and>
   JniEnvOffset example_layout \<noteq> TopOfManagedStackOffset example_layout \<and>
   VObj 2 \<noteq> current_thread example_world \<and>
   LocalRefCookieOffset example_layout \<noteq> SegmentStateOffset example_layout \<and>
   snd (native_code example_world (VObj 99) [] example_memory) (VDisp (VObj 2) (VInt 64)) = VInt 9 \<and>
   mem (run example_world get_actuals example_memory [] (fn_body instance_get_stub))
     (VDisp (VObj 2) (VInt 56)) = VInt 3 \<and>
   mem (run example_world get_actuals example_memory [] (fn_body instance_get_stub))
     (VDisp (VObj 2) (VInt 64)) = VInt 5"
proof -
  have h2: "example_memory (VDisp (current_thread example_world) (VInt (JniEnvOffset example_layout))) = VObj 2"
    by (simp add: example_memory_def example_world_def example_layout_def)
  have h3: "JniEnvOffset example_layout \<noteq> TopOfManagedStackOffset example_layout"
    by (simp add: example_layout_def)
  have h4: "VObj 2 \<noteq> current_thread example_world"
    by (simp add: example_world_def)
  have h5: "LocalRefCookieOffset example_layout \<noteq> SegmentStateOffset example_layout"
    by (simp add: example_layout_def)
  have h6: "snd (native_code example_world code args m)
              (VDisp (VObj 2) (VInt (LocalRefCookieOffset example_layout))) =
            m (VDisp (VObj 2) (VInt (LocalRefCookieOffset example_layout)))" for code args m
    by (simp add: example_world_def example_layout_def store_def)
  have adv: "snd (native_code example_world (VObj 99) [] example_memory) (VDisp (VObj 2) (VInt 64)) = VInt 9"
    by (simp add: example_world_def store_def)
  have "mem (run example_world get_actuals example_memory [] (fn_body instance_get_stub))
          (VDisp (VObj 2) (VInt (LocalRefCookieOffset example_layout))) =
        example_memory (VDisp (VObj 2) (VInt (LocalRefCookieOffset example_layout))) \<and>
        mem (run example_world get_actuals example_memory [] (fn_body instance_get_stub))
          (VDisp (VObj 2) (VInt (SegmentStateOffset example_layout))) =
        example_memory (VDisp (VObj 2) (VInt (SegmentStateOffset example_layout)))"
    using instance_get_compiled h2 h3 h4 h5 h6 by (rule scope_cookie_round_trip)
  then have "mem (run example_world get_actuals example_memory [] (fn_body instance_get_stub))
     (VDisp (VObj 2) (VInt 56)) = VInt 3 \<and>
   mem (run example_world get_actuals example_memory [] (fn_body instance_get_stub))
     (VDisp (VObj 2) (VInt 64)) = VInt 5"
    by (simp add: example_layout_def example_memory_def)
  then show ?thesis using instance_get_compiled h2 h3 h4 h5 adv by blast
qed

subsection \<open>C5: the verifier's verdict\<close>

text \<open>
C5, as stated, fails. \<^verbatim>\<open>Compile\<close> calls the verifier with \<^verbatim>\<open>PrintMessageAction\<close> and drops
  its result. For the static method \<^verbatim>\<open>int add(int, int)\<close> and a verifier that rejects every
  function, the verifier reports the rejection and \<^verbatim>\<open>Compile\<close> still returns its
  \<^verbatim>\<open>CompiledMethod\<close>.
\<close>

theorem verifier_rejection_not_fatal:
  "\<not> isl (Compile example_layout reject_all static_add) \<and>
   verifyFunction reject_all (snd (projr (Compile example_layout reject_all static_add)))
     PrintMessageAction = VerifierReturns True"
  by (simp add: Compile_eq [OF static_add_shorty] verifyFunction_def reject_all_def)

text \<open>
C5, amended: whenever the method has a shorty, \<^verbatim>\<open>Compile\<close> returns the \<^verbatim>\<open>CompiledMethod\<close>
  made of the compilation unit's instruction set and elf index; the verifier, run with
  \<^verbatim>\<open>PrintMessageAction\<close>, only returns its verdict, and the result of \<^verbatim>\<open>Compile\<close> is the
  same for every verifier.
\<close>

theorem compile_ignores_verdict:
  assumes "dex_shorty jc (method_idx jc) \<noteq> []"
  shows "\<exists>f. Compile L broken jc =
           Inr (\<lparr> cm_instruction_set = GetInstructionSet (cunit jc),
                    cm_elf_idx = GetElfIndex (cunit jc) \<rparr>, f) \<and>
         verifyFunction broken f PrintMessageAction = VerifierReturns (broken f) \<and>
         Compile L broken' jc = Compile L broken jc"
proof -
  obtain c cs where sh: "dex_shorty jc (method_idx jc) = c # cs"
    using assms by (cases "dex_shorty jc (method_idx jc)") auto
  show ?thesis
    by (simp add: Compile_eq [OF sh] verifyFunction_def)
qed

text \<open>
The static method \<^verbatim>\<open>int add(int, int)\<close> has a shorty, and compiles to the same result
  under a verifier that accepts everything and one that rejects everything.
\<close>

theorem compile_ignores_verdict_witness:
  "dex_shorty static_add (method_idx static_add) \<noteq> [] \<and>
   Compile example_layout accept_all static_add = Compile example_layout reject_all static_add"
  using compile_ignores_verdict [of static_add example_layout reject_all accept_all]
  by (auto simp: static_add_shorty)

subsection \<open>C6: the order of the stages\<close>

text \<open>
C6, as stated, fails: the arguments are not bound before the thread's state is set to
  native. In the stub of \<^verbatim>\<open>Object get(Object key)\<close> the state is set to native at event 14,
  the receiver and the key are stored into their slots at events 18 and 23, and the
  foreign call is event 33.
\<close>

theorem native_state_precedes_argument_binding:
  "positions (is_state_store example_world example_layout (kNative example_layout))
     (events (run example_world get_actuals example_memory [] (fn_body instance_get_stub))) = [14] \<and>
   positions (is_slot_store (VFrame 1))
     (events (run example_world get_actuals example_memory [] (fn_body instance_get_stub))) = [18, 23] \<and>
   positions is_foreign_call
     (events (run example_world get_actuals example_memory [] (fn_body instance_get_stub))) = [33]"
  by (simp add: instance_get_events positions_def event_preds)
     (simp add: example_world_def example_layout_def)

text \<open>
C6, amended: the stages run in the order of the source. The frame is allocated
  (event 1) and pushed (event 8), the thread's state is set to native (event 14), then
  every slot of the frame is filled (as many slot stores as the frame has slots, all
  after event 14 and before the foreign call), then comes the one foreign call, the
  state is set back to runnable, the return value is decoded exactly when the return
  type is a reference, and the frame is popped.
\<close>

theorem lowering_order:
  assumes "Compile L broken jc = Inr (cm, f)"
  shows "\<exists>n c r q.
     events (run W actuals m0 fs0 (fn_body f)) ! 1 = EAlloca (ShadowFrameTy n) (VFrame 1) \<and>
     positions (is_runtime_call PushShadowFrame) (events (run W actuals m0 fs0 (fn_body f))) = [8] \<and>
     events (run W actuals m0 fs0 (fn_body f)) ! 8 =
       ERuntime PushShadowFrame [VElem (VFrame 1) [VInt 0, VInt 0]] VVoid \<and>
     14 \<in> set (positions (is_state_store W L (kNative L))
                  (events (run W actuals m0 fs0 (fn_body f)))) \<and>
     (\<forall>j \<in> set (positions (is_state_store W L (kNative L))
                    (events (run W actuals m0 fs0 (fn_body f)))). 8 < j) \<and>
     length (positions (is_slot_store (VFrame 1)) (events (run W actuals m0 fs0 (fn_body f)))) = n \<and>
     0 < n \<and>
     (\<forall>j \<in> set (positions (is_slot_store (VFrame 1)) (events (run W actuals m0 fs0 (fn_body f)))).
        14 < j \<and> j < c) \<and>
     positions is_foreign_call (events (run W actuals m0 fs0 (fn_body f))) = [c] \<and>
     r \<in> set (positions (is_state_store W L (kRunnable L))
                 (events (run W actuals m0 fs0 (fn_body f)))) \<and>
     positions (is_runtime_call PopShadowFrame) (events (run W actuals m0 fs0 (fn_body f))) = [q] \<and>
     c < r \<and> r < q \<and>
     (\<forall>d \<in> set (positions (is_runtime_call DecodeJObjectInThread)
                    (events (run W actuals m0 fs0 (fn_body f)))). r < d \<and> d < q) \<and>
     (hd (dex_shorty jc (method_idx jc)) = CHR ''L'' \<longleftrightarrow>
        positions (is_runtime_call DecodeJObjectInThread)
          (events (run W actuals m0 fs0 (fn_body f))) \<noteq> [])"
  using assms by (rule stub_order)

text \<open>
The static method \<^verbatim>\<open>int add(int, int)\<close>: one slot (the class), filled at event 20,
  between the native state (14) and the foreign call (28); no decode.
\<close>

theorem lowering_order_witness:
  "Compile example_layout accept_all static_add = Inr (example_cm, static_add_stub) \<and>
   events (run example_world add_actuals example_memory [] (fn_body static_add_stub)) ! 1 =
     EAlloca (ShadowFrameTy 1) (VFrame 1) \<and>
   positions (is_runtime_call PushShadowFrame)
     (events (run example_world add_actuals example_memory [] (fn_body static_add_stub))) = [8] \<and>
   positions (is_state_store example_world example_layout (kNative example_layout))
     (events (run example_world add_actuals example_memory [] (fn_body static_add_stub))) = [14] \<and>
   positions (is_slot_store (VFrame 1))
     (events (run example_world add_actuals example_memory [] (fn_body static_add_stub))) = [20] \<and>
   positions is_foreign_call
     (events (run example_world add_actuals example_memory [] (fn_body static_add_stub))) = [28] \<and>
   positions (is_state_store example_world example_layout (kRunnable example_layout))
     (events (run example_world add_actuals example_memory [] (fn_body static_add_stub))) = [30] \<and>
   positions (is_runtime_call DecodeJObjectInThread)
     (events (run example_world add_actuals example_memory [] (fn_body static_add_stub))) = [] \<and>
   positions (is_runtime_call PopShadowFrame)
     (events (run example_world add_actuals example_memory [] (fn_body static_add_stub))) = [37]"
proof -
  have push: "positions (is_runtime_call PushShadowFrame)
     (events (run example_world add_actuals example_memory [] (fn_body static_add_stub))) = [8]"
    using lowering_order [OF static_add_compiled,
        of example_world add_actuals example_memory "[]"]
    by blast
  have rest: "events (run example_world add_actuals example_memory [] (fn_body static_add_stub)) ! 1 =
     EAlloca (ShadowFrameTy 1) (VFrame 1) \<and>
   positions (is_state_store example_world example_layout (kNative example_layout))
     (events (run example_world add_actuals example_memory [] (fn_body static_add_stub))) = [14] \<and>
   positions (is_slot_store (VFrame 1))
     (events (run example_world add_actuals example_memory [] (fn_body static_add_stub))) = [20] \<and>
   positions is_foreign_call
     (events (run example_world add_actuals example_memory [] (fn_body static_add_stub))) = [28] \<and>
   positions (is_state_store example_world example_layout (kRunnable example_layout))
     (events (run example_world add_actuals example_memory [] (fn_body static_add_stub))) = [30] \<and>
   positions (is_runtime_call DecodeJObjectInThread)
     (events (run example_world add_actuals example_memory [] (fn_body static_add_stub))) = [] \<and>
   positions (is_runtime_call PopShadowFrame)
     (events (run example_world add_actuals example_memory [] (fn_body static_add_stub))) = [37]"
    by (simp add: static_add_events positions_def event_preds)
       (simp add: example_world_def example_layout_def)
  show ?thesis using static_add_compiled push rest by blast
qed

subsection \<open>C7: what the epilogue reads\<close>

text \<open>
C7, as stated, fails: after the foreign call the stub does not read the segment state.
  In the run of \<^verbatim>\<open>Object get(Object key)\<close> the foreign call is event 33; the only load
  from the segment-state field is event 30, before the call; after the call the stub
  loads the cookie field (event 38, value 5) and stores that value into the
  segment-state field (event 40). The foreign code had moved the segment state to 9, and
  the stub leaves it at 5.
\<close>

theorem epilogue_reads_cookie_not_segment_state:
  "positions is_foreign_call
     (events (run example_world get_actuals example_memory [] (fn_body instance_get_stub))) = [33] \<and>
   positions (is_load_from (VDisp (VObj 2) (VInt (SegmentStateOffset example_layout))))
     (events (run example_world get_actuals example_memory [] (fn_body instance_get_stub))) = [30] \<and>
   positions (is_load_from (VDisp (VObj 2) (VInt (LocalRefCookieOffset example_layout))))
     (events (run example_world get_actuals example_memory [] (fn_body instance_get_stub))) = [28, 38] \<and>
   events (run example_world get_actuals example_memory [] (fn_body instance_get_stub)) ! 38 =
     ELoad (VDisp (VObj 2) (VInt (LocalRefCookieOffset example_layout))) (VInt 5) \<and>
   events (run example_world get_actuals example_memory [] (fn_body instance_get_stub)) ! 40 =
     EStore (VInt 5) (VDisp (VObj 2) (VInt (SegmentStateOffset example_layout))) \<and>
   snd (native_code example_world (VObj 99)
          [VObj 2, VElem (VFrame 1) [VInt 0, VInt 1, VInt 0], VNull] example_memory)
     (VDisp (VObj 2) (VInt (SegmentStateOffset example_layout))) = VInt 9 \<and>
   mem (run example_world get_actuals example_memory [] (fn_body instance_get_stub))
     (VDisp (VObj 2) (VInt (SegmentStateOffset example_layout))) = VInt 5"
proof -
  have "mem (run example_world get_actuals example_memory [] (fn_body instance_get_stub))
     (VDisp (VObj 2) (VInt (SegmentStateOffset example_layout))) = VInt 5"
    by (simp add: instance_get_body run_stub_body stub_result_def prologue_result_def
      epilogue_result_def Let_def bridge_args_get sirt_size_of_def bridge_arg_types_def
      getJType_def example_world_def example_layout_def example_memory_def get_actuals_def
      store_def zero_fill_def inside_def slot_addr_def actual_def)
  moreover have "snd (native_code example_world (VObj 99)
          [VObj 2, VElem (VFrame 1) [VInt 0, VInt 1, VInt 0], VNull] example_memory)
     (VDisp (VObj 2) (VInt (SegmentStateOffset example_layout))) = VInt 9"
    by (simp add: example_world_def example_layout_def store_def)
  ultimately show ?thesis
    by (simp add: instance_get_events positions_def is_foreign_call_def is_load_from_def)
       (simp add: example_layout_def)
qed

text \<open>
C7, amended: before the foreign call the stub loads the cookie and the segment state
  of the environment and stores the segment state into the cookie field; after the call
  and the store of the runnable state, its last eight steps load the cookie field
  again, store the loaded value into the segment-state field, store the cookie saved
  before the call into the cookie field, pop the frame and return.
\<close>

theorem scope_tracker_epilogue:
  assumes "Compile L broken jc = Inr (cm, f)"
  shows "\<exists>env code args cookie0 seg0 r lc ret b.
     events (run W actuals m0 fs0 (fn_body f)) ! 12 =
       ELoad (VDisp (current_thread W) (VInt (JniEnvOffset L))) env \<and>
     positions is_foreign_call (events (run W actuals m0 fs0 (fn_body f))) = [b + 6] \<and>
     take 9 (drop b (events (run W actuals m0 fs0 (fn_body f)))) =
       [EPure (VDisp env (VInt (LocalRefCookieOffset L))),
        ELoad (VDisp env (VInt (LocalRefCookieOffset L))) cookie0,
        EPure (VDisp env (VInt (SegmentStateOffset L))),
        ELoad (VDisp env (VInt (SegmentStateOffset L))) seg0,
        EPure (VDisp env (VInt (LocalRefCookieOffset L))),
        EStore seg0 (VDisp env (VInt (LocalRefCookieOffset L))),
        ENative code args r,
        EPure (VDisp (current_thread W) (VInt (StateOffset L))),
        EStore (VInt (kRunnable L)) (VDisp (current_thread W) (VInt (StateOffset L)))] \<and>
     drop (length (events (run W actuals m0 fs0 (fn_body f))) - 8)
          (events (run W actuals m0 fs0 (fn_body f))) =
       [EPure (VDisp env (VInt (LocalRefCookieOffset L))),
        ELoad (VDisp env (VInt (LocalRefCookieOffset L))) lc,
        EPure (VDisp env (VInt (SegmentStateOffset L))),
        EStore lc (VDisp env (VInt (SegmentStateOffset L))),
        EPure (VDisp env (VInt (LocalRefCookieOffset L))),
        EStore cookie0 (VDisp env (VInt (LocalRefCookieOffset L))),
        ERuntime PopShadowFrame [] VVoid,
        EReturn ret]"
proof -
  obtain c cs where body: "fn_body f = stub_body L (IsStatic (the_method jc)) c cs"
    using assms by (rule Compile_InrD)
  define st where "st = IsStatic (the_method jc)"
  define t where "t = events (run W actuals m0 fs0 (fn_body f))"
  obtain env code cls cookie0 seg0 r dec lc
    where t: "t = stub_trace W L st c cs actuals env code cls cookie0 seg0 r dec lc"
    using stub_events_shape [of W L st c cs actuals m0 fs0]
    by (auto simp: t_def body run_stub_body st_def)
  define A where "A = pre_events W L (sirt_size_of st cs) actuals env code
     @ (if st then class_events L actuals cls else [])
     @ mid_events actuals (VFrame 1) (bridge_args st cs) (if st then 1 else 0)"
  define args where "args = [env] @ (if st then [slot_addr (VFrame 1) 0] else [])
          @ mid_args actuals (VFrame 1) (bridge_args st cs) (if st then 1 else 0)"
  define B where "B = call_events W L env code args cookie0 seg0 r"
  define D where "D = (if c = CHR ''L''
          then [ERuntime DecodeJObjectInThread [current_thread W, r] dec] else [])"
  define ret where "ret = (if c = CHR ''V'' then VVoid else if c = CHR ''L'' then dec else r)"
  define F where "F = [EPure (VDisp env (VInt (LocalRefCookieOffset L))),
        ELoad (VDisp env (VInt (LocalRefCookieOffset L))) lc,
        EPure (VDisp env (VInt (SegmentStateOffset L))),
        EStore lc (VDisp env (VInt (SegmentStateOffset L))),
        EPure (VDisp env (VInt (LocalRefCookieOffset L))),
        EStore cookie0 (VDisp env (VInt (LocalRefCookieOffset L))),
        ERuntime PopShadowFrame [] VVoid,
        EReturn ret]"
  have tA: "t = A @ B @ D @ F"
    by (simp add: t stub_trace_def A_def B_def D_def F_def args_def exit_events_def Let_def ret_def)
  have lenB: "length B = 9" by (simp add: B_def length_call_events)
  have lenF: "length F = 8" by (simp add: F_def)
  have e12: "t ! 12 = ELoad (VDisp (current_thread W) (VInt (JniEnvOffset L))) env"
    by (simp add: tA A_def pre_events_def Let_def)
  have noA: "positions_from 0 is_foreign_call A = []"
    by (simp add: A_def positions_from_append mid_events_not is_foreign_call_def)
       (simp add: pre_events_def class_events_def Let_def is_foreign_call_def)
  have fc: "positions is_foreign_call t = [length A + 6]"
    by (simp add: positions_def tA positions_from_append noA lenB)
       (simp add: B_def D_def F_def call_events_def Let_def is_foreign_call_def)
  have mid: "take 9 (drop (length A) t) = B"
    by (simp add: tA lenB)
  have "length t - 8 = length (A @ B @ D)"
    by (simp add: tA lenF)
  then have fin: "drop (length t - 8) t = F"
    by (simp add: tA)
  show ?thesis
    using e12 fc mid fin
    unfolding t_def [symmetric] B_def F_def call_events_def Let_def
    by blast
qed

text \<open>
The static \<^verbatim>\<open>int add(int, int)\<close>: the foreign call is event 28, and the last eight
  events load the cookie field, which holds 5, store 5 into the segment-state field and
  the saved cookie 3 into the cookie field, pop the frame and return.
\<close>

theorem scope_tracker_epilogue_witness:
  "Compile example_layout accept_all static_add = Inr (example_cm, static_add_stub) \<and>
   is_load_from (VDisp (current_thread example_world) (VInt (JniEnvOffset example_layout)))
     (events (run example_world add_actuals example_memory [] (fn_body static_add_stub)) ! 12) \<and>
   positions is_foreign_call
     (events (run example_world add_actuals example_memory [] (fn_body static_add_stub))) = [28] \<and>
   drop 31 (events (run example_world add_actuals example_memory [] (fn_body static_add_stub))) =
     [EPure (VDisp (VObj 2) (VInt 56)), ELoad (VDisp (VObj 2) (VInt 56)) (VInt 5),
      EPure (VDisp (VObj 2) (VInt 64)), EStore (VInt 5) (VDisp (VObj 2) (VInt 64)),
      EPure (VDisp (VObj 2) (VInt 56)), EStore (VInt 3) (VDisp (VObj 2) (VInt 56)),
      ERuntime PopShadowFrame [] VVoid, EReturn (VObj 12)]"
proof -
  have "is_load_from (VDisp (current_thread example_world) (VInt (JniEnvOffset example_layout)))
     (events (run example_world add_actuals example_memory [] (fn_body static_add_stub)) ! 12)"
    using scope_tracker_epilogue [OF static_add_compiled,
        of example_world add_actuals example_memory "[]"]
    by (auto simp: is_load_from_def)
  moreover have "positions is_foreign_call
     (events (run example_world add_actuals example_memory [] (fn_body static_add_stub))) = [28] \<and>
   drop 31 (events (run example_world add_actuals example_memory [] (fn_body static_add_stub))) =
     [EPure (VDisp (VObj 2) (VInt 56)), ELoad (VDisp (VObj 2) (VInt 56)) (VInt 5),
      EPure (VDisp (VObj 2) (VInt 64)), EStore (VInt 5) (VDisp (VObj 2) (VInt 64)),
      EPure (VDisp (VObj 2) (VInt 56)), EStore (VInt 3) (VDisp (VObj 2) (VInt 56)),
      ERuntime PopShadowFrame [] VVoid, EReturn (VObj 12)]"
    by (simp add: static_add_events positions_def is_foreign_call_def)
  ultimately show ?thesis using static_add_compiled by blast
qed

subsection \<open>C8: the foreign argument list\<close>

text \<open>
C8. The foreign callee receives: the environment (the value loaded from the thread's
  environment field), then the handle of the class (static: the address of slot 0) or of
  the receiver (instance: null for a null receiver, else the address of slot 0), then
  the arguments of the shorty in their order, each marshalled, with slots counted from
  1. The slot stores of the run go to slots 0, 1, 2, ... in this order, one per slot of
  the frame: slot 0 takes the class or the receiver, the following ones the reference
  arguments from left to right.
\<close>

theorem foreign_argument_list:
  assumes "Compile L broken jc = Inr (cm, f)"
  shows "\<exists>env cls.
     events (run W actuals m0 fs0 (fn_body f)) ! 1 =
       EAlloca (ShadowFrameTy
                  (Suc (length (filter (\<lambda>c. c = CHR ''L'') (tl (dex_shorty jc (method_idx jc)))))))
         (VFrame 1) \<and>
     events (run W actuals m0 fs0 (fn_body f)) ! 12 =
       ELoad (VDisp (current_thread W) (VInt (JniEnvOffset L))) env \<and>
     (IsStatic (the_method jc) \<longrightarrow>
        events (run W actuals m0 fs0 (fn_body f)) ! 18 =
          ELoad (VDisp (actual actuals 0) (VInt (DeclaringClassOffset L))) cls) \<and>
     foreign_args (events (run W actuals m0 fs0 (fn_body f))) =
       [env
        # (if IsStatic (the_method jc) then slot_addr (VFrame 1) 0
           else if actual actuals 1 = VNull then VNull else slot_addr (VFrame 1) 0)
        # marshalled (VFrame 1)
            (zip (map getJType (tl (dex_shorty jc (method_idx jc))))
                 (map (actual actuals)
                    [(if IsStatic (the_method jc) then 1 else 2) ..<
                     (if IsStatic (the_method jc) then 1 else 2)
                       + length (tl (dex_shorty jc (method_idx jc)))]))
            1] \<and>
     slot_stores (VFrame 1) (events (run W actuals m0 fs0 (fn_body f))) =
       zip (map (slot_addr (VFrame 1))
              [0 ..< Suc (length (filter (\<lambda>c. c = CHR ''L'') (tl (dex_shorty jc (method_idx jc)))))])
           ((if IsStatic (the_method jc) then cls else actual actuals 1)
            # map snd (filter (\<lambda>p. fst p = JObjectTy)
                (zip (map getJType (tl (dex_shorty jc (method_idx jc))))
                     (map (actual actuals)
                        [(if IsStatic (the_method jc) then 1 else 2) ..<
                         (if IsStatic (the_method jc) then 1 else 2)
                           + length (tl (dex_shorty jc (method_idx jc)))]))))"
proof -
  define st where "st = IsStatic (the_method jc)"
  define cs where "cs = tl (dex_shorty jc (method_idx jc))"
  define t where "t = events (run W actuals m0 fs0 (fn_body f))"
  define tys where "tys = tl (fn_params (fn_type f))"
  define r where "r = length (filter (\<lambda>c. c = CHR ''L'') cs)"
  have tys: "tys = (if st then [] else [JObjectTy]) @ map getJType cs"
    using fn_params_compiled [OF assms] by (simp add: tys_def st_def cs_def bridge_arg_types_def)
  obtain env cls where
    t1: "t ! 1 = EAlloca (ShadowFrameTy ((if st then 1 else 0)
                  + length (filter (\<lambda>ty. ty = JObjectTy) tys))) (VFrame 1)"
    and e12: "t ! 12 = ELoad (VDisp (current_thread W) (VInt (JniEnvOffset L))) env"
    and cls: "st \<longrightarrow> t ! 18 = ELoad (VDisp (actual actuals 0) (VInt (DeclaringClassOffset L))) cls"
    and fa: "foreign_args t = [env # (if st then [slot_addr (VFrame 1) 0] else [])
          @ marshalled (VFrame 1) (zip tys (map (actual actuals) [1 ..< Suc (length tys)]))
              (if st then 1 else 0)]"
    and ss: "slot_stores (VFrame 1) t =
       zip (map (slot_addr (VFrame 1))
              [0 ..< (if st then 1 else 0) + length (filter (\<lambda>ty. ty = JObjectTy) tys)])
           ((if st then [cls] else [])
            @ map snd (filter (\<lambda>p. fst p = JObjectTy)
                (zip tys (map (actual actuals) [1 ..< Suc (length tys)]))))"
    using stub_marshalling [OF assms, of W actuals m0 fs0]
    unfolding t_def st_def tys_def by blast
  have n: "(if st then 1 else 0) + length (filter (\<lambda>ty. ty = JObjectTy) tys) = Suc r"
    using filter_getJType [of cs] by (simp add: tys r_def)
  show ?thesis
  proof (cases st)
    case True
    have "[1 ..< Suc (length tys)] = [1 ..< 1 + length cs]"
      using True by (simp add: tys del: upt_Suc)
    then show ?thesis
      using True t1 e12 cls fa ss
      unfolding n t_def [symmetric] st_def [symmetric] cs_def [symmetric] r_def [symmetric]
      by (intro exI [of _ env] exI [of _ cls]) (simp add: tys del: upt_Suc)
  next
    case False
    have "[1 ..< Suc (length tys)] = 1 # [2 ..< 2 + length cs]"
      using False upt_conv_Cons [of 1 "Suc (Suc (length cs))"]
      by (simp add: tys eval_nat_numeral del: upt_Suc)
    then show ?thesis
      using False t1 e12 cls fa ss
      unfolding n t_def [symmetric] st_def [symmetric] cs_def [symmetric] r_def [symmetric]
      by (intro exI [of _ env] exI [of _ cls]) (simp add: tys del: upt_Suc)
  qed
qed

text \<open>
\<^verbatim>\<open>Object get(Object key)\<close> with a null key: the callee receives the environment, the
  address of slot 0 and null; slot 0 holds the receiver and slot 1 null.
\<close>

theorem foreign_argument_list_witness:
  "Compile example_layout accept_all instance_get = Inr (example_cm, instance_get_stub) \<and>
   length (foreign_args
     (events (run example_world get_actuals example_memory [] (fn_body instance_get_stub)))) = 1 \<and>
   foreign_args
     (events (run example_world get_actuals example_memory [] (fn_body instance_get_stub))) =
     [[VObj 2, slot_addr (VFrame 1) 0, VNull]] \<and>
   slot_stores (VFrame 1)
     (events (run example_world get_actuals example_memory [] (fn_body instance_get_stub))) =
     [(slot_addr (VFrame 1) 0, VObj 11), (slot_addr (VFrame 1) 1, VNull)]"
proof -
  have "length (foreign_args
     (events (run example_world get_actuals example_memory [] (fn_body instance_get_stub)))) = 1"
    using foreign_argument_list [OF instance_get_compiled,
        of example_world get_actuals example_memory "[]"]
    by auto
  moreover have "foreign_args
     (events (run example_world get_actuals example_memory [] (fn_body instance_get_stub))) =
     [[VObj 2, slot_addr (VFrame 1) 0, VNull]] \<and>
   slot_stores (VFrame 1)
     (events (run example_world get_actuals example_memory [] (fn_body instance_get_stub))) =
     [(slot_addr (VFrame 1) 0, VObj 11), (slot_addr (VFrame 1) 1, VNull)]"
    by (simp add: instance_get_events foreign_args_def slot_stores_def is_slot_addr_def
        slot_addr_def)
  ultimately show ?thesis using instance_get_compiled by blast
qed

subsection \<open>C9: decoding the return value\<close>

text \<open>
C9. The body has one indirect call, the foreign call. When the first character of the
  shorty is \<^verbatim>\<open>L\<close> there is exactly one call of the decode function, on the thread and the
  call's result, and its result is returned; for any other character there is no decode
  call, and the body ends in a return of the foreign call's own result, or in a void
  return when the character is \<^verbatim>\<open>V\<close>.
\<close>

theorem return_value_decoding:
  assumes "Compile L broken jc = Inr (cm, f)"
  shows "\<exists>fc code args.
     positions is_indirect_call (fn_body f) = [fc] \<and>
     fn_body f ! fc = Call (Indirect code) args \<and>
     (if hd (dex_shorty jc (method_idx jc)) = CHR ''L''
      then positions (is_call_to DecodeJObjectInThread) (fn_body f) = [fc + 3] \<and>
           fn_body f ! (fc + 3) = Call (RuntimeFn DecodeJObjectInThread) [Reg 0, Reg fc] \<and>
           last (fn_body f) = Ret (Reg (fc + 3))
      else positions (is_call_to DecodeJObjectInThread) (fn_body f) = [] \<and>
           last (fn_body f) =
             (if hd (dex_shorty jc (method_idx jc)) = CHR ''V'' then RetVoid else Ret (Reg fc)))"
proof -
  obtain c cs where sh: "dex_shorty jc (method_idx jc) = c # cs"
    and body: "fn_body f = stub_body L (IsStatic (the_method jc)) c cs"
    using assms by (rule Compile_InrD)
  define st where "st = IsStatic (the_method jc)"
  obtain pre mid args where split: "stub_body L st c cs = pre @ mid @ epilogue L c args (length pre + length mid)"
    and pre: "pre = prologue L st c cs @ (if st then class_instrs L else [])"
    and mid: "mid = arg_instrs (Reg 1) (bridge_args st cs) (if st then 1 else 0) (length pre)"
    using stub_body_split [of L st c cs] by blast
  define A where "A = pre @ mid"
  define N where "N = length A"
  have sp: "stub_body L st c cs = A @ epilogue L c args N"
    by (simp add: split A_def N_def)
  have ia: "positions_from 0 is_indirect_call A = []"
    by (simp add: A_def positions_from_append mid arg_instrs_no_call)
       (simp add: pre prologue_def class_instrs_def positions_from_append is_indirect_call_def)
  have da: "positions_from 0 (is_call_to DecodeJObjectInThread) A = []"
    by (simp add: A_def positions_from_append mid arg_instrs_no_call)
       (simp add: pre prologue_def class_instrs_def positions_from_append is_call_to_def)
  have fc: "positions is_indirect_call (stub_body L st c cs) = [N + 6]"
    by (simp add: positions_def sp positions_from_append ia N_def [symmetric])
       (simp add: epilogue_def positions_from_append is_indirect_call_def Let_def)
  have call: "stub_body L st c cs ! (N + 6) = Call (Indirect (Reg 16)) args"
    by (simp add: sp N_def nth_append) (simp add: epilogue_def)
  have dec: "positions (is_call_to DecodeJObjectInThread) (stub_body L st c cs) =
      (if c = CHR ''L'' then [N + 9] else [])"
    by (simp add: positions_def sp positions_from_append da N_def [symmetric])
       (simp add: epilogue_def positions_from_append is_call_to_def Let_def)
  have deci: "c = CHR ''L'' \<Longrightarrow>
      stub_body L st c cs ! (N + 9) = Call (RuntimeFn DecodeJObjectInThread) [Reg 0, Reg (N + 6)]"
    unfolding sp by (simp add: N_def nth_append epilogue_def)
  have lst: "last (stub_body L st c cs) =
      (if c = CHR ''V'' then RetVoid else Ret (Reg (if c = CHR ''L'' then N + 9 else N + 6)))"
    by (simp add: sp epilogue_def Let_def)
  show ?thesis
  proof (cases "c = CHR ''L''")
    case True
    then show ?thesis
      using fc call dec deci lst
      unfolding body st_def [symmetric] sh
      by (intro exI [of _ "N + 6"] exI [of _ "Reg 16"] exI [of _ args]) (simp add: add.commute)
  next
    case False
    then show ?thesis
      using fc call dec lst
      unfolding body st_def [symmetric] sh
      by (intro exI [of _ "N + 6"] exI [of _ "Reg 16"] exI [of _ args]) simp
  qed
qed

text \<open>
\<^verbatim>\<open>Object get(Object key)\<close> decodes (instruction 36) the result of the call
  (instruction 33); \<^verbatim>\<open>int add(int, int)\<close> returns the result of instruction 28 as it is.
\<close>

theorem return_value_decoding_witness:
  "Compile example_layout accept_all instance_get = Inr (example_cm, instance_get_stub) \<and>
   length (positions is_indirect_call (fn_body instance_get_stub)) = 1 \<and>
   positions is_indirect_call (fn_body instance_get_stub) = [33] \<and>
   positions (is_call_to DecodeJObjectInThread) (fn_body instance_get_stub) = [36] \<and>
   last (fn_body instance_get_stub) = Ret (Reg 36) \<and>
   positions is_indirect_call (fn_body static_add_stub) = [28] \<and>
   positions (is_call_to DecodeJObjectInThread) (fn_body static_add_stub) = [] \<and>
   last (fn_body static_add_stub) = Ret (Reg 28)"
proof -
  have "length (positions is_indirect_call (fn_body instance_get_stub)) = 1"
    using return_value_decoding [OF instance_get_compiled] by auto
  then show ?thesis
    using instance_get_compiled
    by (simp add: static_add_code instance_get_code positions_def is_indirect_call_def
        is_call_to_def)
qed

subsection \<open>C10: the declaring class of a static method\<close>

text \<open>
C10. For a static method the stub loads the declaring class from the method, stores
  it into slot 0, and passes the address of slot 0, cast to the object type, as the
  second argument of the foreign call, whatever the loaded value is: the five
  instructions have no comparison with null and no select.
\<close>

theorem static_class_handle:
  assumes "Compile L broken jc = Inr (cm, f)" and "IsStatic (the_method jc)"
  shows "\<exists>cls args.
     events (run W actuals m0 fs0 (fn_body f)) ! 18 =
       ELoad (VDisp (actual actuals 0) (VInt (DeclaringClassOffset L))) cls \<and>
     events (run W actuals m0 fs0 (fn_body f)) ! 20 = EStore cls (slot_addr (VFrame 1) 0) \<and>
     foreign_args (events (run W actuals m0 fs0 (fn_body f))) = [args] \<and>
     args ! 1 = slot_addr (VFrame 1) 0 \<and>
     take 5 (drop 17 (fn_body f)) =
       [PtrDisp (Argument 0) (PtrEquivInt (DeclaringClassOffset L)) (PointerTo JObjectTy),
        Load (Reg 17),
        GEP (Reg 1) [Int32 0, Int32 1, Int32 0],
        Store (Reg 18) (Reg 19),
        BitCast (Reg 19) JObjectTy]"
proof -
  obtain c cs where sh: "dex_shorty jc (method_idx jc) = c # cs"
    and body: "fn_body f = stub_body L (IsStatic (the_method jc)) c cs"
    using assms(1) by (rule Compile_InrD)
  obtain env cls where
    cls: "events (run W actuals m0 fs0 (fn_body f)) ! 18 =
          ELoad (VDisp (actual actuals 0) (VInt (DeclaringClassOffset L))) cls"
      "events (run W actuals m0 fs0 (fn_body f)) ! 20 = EStore cls (slot_addr (VFrame 1) 0)"
    and fa: "foreign_args (events (run W actuals m0 fs0 (fn_body f))) =
       [env # [slot_addr (VFrame 1) 0]
          @ marshalled (VFrame 1)
              (zip (tl (fn_params (fn_type f)))
                   (map (actual actuals) [1 ..< Suc (length (tl (fn_params (fn_type f))))])) 1]"
    using stub_marshalling [OF assms(1), of W actuals m0 fs0] assms(2) by auto
  have syn: "take 5 (drop 17 (fn_body f)) = class_instrs L"
    using assms(2) by (simp add: body stub_body_def Let_def length_prologue length_class_instrs)
  define args where "args = env # [slot_addr (VFrame 1) 0]
          @ marshalled (VFrame 1)
              (zip (tl (fn_params (fn_type f)))
                   (map (actual actuals) [1 ..< Suc (length (tl (fn_params (fn_type f))))])) 1"
  have fa': "foreign_args (events (run W actuals m0 fs0 (fn_body f))) = [args]"
    unfolding args_def by (rule fa)
  have a1: "args ! 1 = slot_addr (VFrame 1) 0"
    by (simp add: args_def)
  show ?thesis
    using cls fa' a1 syn
    unfolding class_instrs_def
    by (intro exI [of _ cls] exI [of _ args]) blast
qed

text \<open>
In the example the class field of the method holds null: null is stored into slot 0
  and the callee still receives the address of slot 0.
\<close>

theorem static_class_handle_witness:
  "Compile example_layout accept_all static_add = Inr (example_cm, static_add_stub) \<and>
   IsStatic (the_method static_add) \<and>
   length (foreign_args
     (events (run example_world add_actuals example_memory [] (fn_body static_add_stub)))) = 1 \<and>
   events (run example_world add_actuals example_memory [] (fn_body static_add_stub)) ! 18 =
     ELoad (VDisp (VObj 10) (VInt 48)) VNull \<and>
   events (run example_world add_actuals example_memory [] (fn_body static_add_stub)) ! 20 =
     EStore VNull (slot_addr (VFrame 1) 0) \<and>
   foreign_args
     (events (run example_world add_actuals example_memory [] (fn_body static_add_stub))) =
     [[VObj 2, slot_addr (VFrame 1) 0, VInt 4, VInt 5]]"
proof -
  have st: "IsStatic (the_method static_add)"
    by (simp add: static_add_def example_method_def)
  have "length (foreign_args
     (events (run example_world add_actuals example_memory [] (fn_body static_add_stub)))) = 1"
    using static_class_handle [OF static_add_compiled st,
        of example_world add_actuals example_memory "[]"]
    by auto
  moreover have "events (run example_world add_actuals example_memory [] (fn_body static_add_stub)) ! 18 =
     ELoad (VDisp (VObj 10) (VInt 48)) VNull \<and>
   events (run example_world add_actuals example_memory [] (fn_body static_add_stub)) ! 20 =
     EStore VNull (slot_addr (VFrame 1) 0) \<and>
   foreign_args
     (events (run example_world add_actuals example_memory [] (fn_body static_add_stub))) =
     [[VObj 2, slot_addr (VFrame 1) 0, VInt 4, VInt 5]]"
    by (simp add: static_add_events foreign_args_def slot_addr_def)
  ultimately show ?thesis using static_add_compiled st by blast
qed

end
